theory Spec2Isabelle
  imports Complex_Main "HOL-Library.AList" "HOL-Library.Sublist" "HOL-Library.Multiset"
begin

section \<open>Errors\<close>

text \<open>
  Every exception the modelled code can raise is a value.  \<open>RESTError code message\<close> is
  moto's \<open>RESTError\<close>; the three EC2 errors carry the identifiers their constructors
  receive; the others are Python's built-in exceptions.
\<close>

datatype error =
    RESTError string string
  | KeyError string
  | ValueError
  | ZeroDivisionError
  | AssertionError
  | RecursionError
  | TypeError
  | OverflowError
  | InvalidVpnGatewayIdError string
  | InvalidVpnGatewayAttachmentError string string
  | InvalidVPCIdError string

section \<open>Python dictionaries\<close>

text \<open>
  A \<open>dict\<close> keeps its keys in insertion order, so it is an association list with
  distinct keys: \<open>d[k] = v\<close> is \<open>AList.update\<close> (an existing key keeps its place, a new
  one goes last), \<open>del d[k]\<close> and \<open>d.pop(k)\<close> are \<open>AList.delete\<close>, \<open>d.get(k)\<close> is
  \<open>map_of\<close>, \<open>d.keys()\<close> is \<open>map fst\<close> and \<open>d.values()\<close> is \<open>map snd\<close>.
\<close>

type_synonym ('k, 'v) dict = "('k \<times> 'v) list"

definition keys :: "('k, 'v) dict \<Rightarrow> 'k list" where
  "keys d = map fst d"

definition dict_values :: "('k, 'v) dict \<Rightarrow> 'v list" where
  "dict_values d = map snd d"

text \<open>\<open>del d[k]\<close> raises \<open>KeyError\<close> on a key that is not there.\<close>

definition dict_del :: "string \<Rightarrow> (string, 'v) dict \<Rightarrow> error + (string, 'v) dict" where
  "dict_del k d = (if k \<in> set (keys d) then Inr (AList.delete k d) else Inl (KeyError k))"

text \<open>\<open>d[k]\<close> read from a request dictionary: \<open>KeyError\<close> on a missing key.\<close>

definition getitem :: "(string \<rightharpoonup> 'v) \<Rightarrow> string \<Rightarrow> error + 'v" where
  "getitem d k = (case d k of None \<Rightarrow> Inl (KeyError k) | Some v \<Rightarrow> Inr v)"

section \<open>Dimension\<close>

record Dimension =
  dim_name :: string
  dim_value :: string

text \<open>
  \<open>Dimension.__eq__\<close>.  The \<open>isinstance\<close> test holds for every value of the record type,
  so only its first branch is left.
\<close>

definition Dimension_eq :: "Dimension \<Rightarrow> Dimension \<Rightarrow> bool" where
  "Dimension_eq self item \<longleftrightarrow> dim_name self = dim_name item \<and> dim_value self = dim_value item"

text \<open>
  \<open>Dimension.__ne__\<close> is \<open>return self != item\<close>: the operator \<open>!=\<close> on a \<open>Dimension\<close>
  calls \<open>Dimension.__ne__\<close> again, with the same arguments.  The first argument of the
  model is the number of frames the interpreter's stack still has room for; with none
  left the call raises \<open>RecursionError\<close>.
\<close>

fun Dimension_ne :: "nat \<Rightarrow> Dimension \<Rightarrow> Dimension \<Rightarrow> error + bool" where
  "Dimension_ne 0 self item = Inl RecursionError"
| "Dimension_ne (Suc depth) self item = Dimension_ne depth self item"

section \<open>Alarms\<close>

text \<open>
  \<open>datetime.utcnow()\<close> reads the clock: each call of the source is a parameter of the
  model, the instant the call returns, counted in microseconds from a fixed origin.  The
  alarms only store these instants.  Floating-point fields are modelled by real numbers.
\<close>

type_synonym instant = int

text \<open>
  A history entry is the tuple \<open>("StateUpdate", state_reason, state_reason_data,
  state_value, state_updated_timestamp)\<close>.
\<close>

type_synonym history_entry = "string \<times> string \<times> string option \<times> string \<times> instant"

record FakeAlarm =
  alarm_name :: string
  alarm_namespace :: string
  alarm_metric_name :: string
  comparison_operator :: string
  evaluation_periods :: int
  alarm_period :: int
  threshold :: real
  statistic :: string
  description :: string
  alarm_dimensions :: "Dimension list"
  actions_enabled :: bool
  alarm_actions :: "string list"
  ok_actions :: "string list"
  insufficient_data_actions :: "string list"
  alarm_unit :: string
  configuration_updated_timestamp :: instant
  history :: "history_entry list"
  state_reason :: string
  state_reason_data :: "string option"
  state_value :: string
  state_updated_timestamp :: instant

text \<open>
  The comprehension \<open>[Dimension(dimension["name"], dimension["value"]) for dimension in
  dimensions]\<close> of \<open>FakeAlarm.__init__\<close>; each \<open>dimension\<close> is a request dictionary.
\<close>

fun alarm_dimensions_of :: "(string \<rightharpoonup> string) list \<Rightarrow> error + Dimension list" where
  "alarm_dimensions_of [] = Inr []"
| "alarm_dimensions_of (dimension # dimensions) =
     (case getitem dimension ''name'' of
        Inl e \<Rightarrow> Inl e
      | Inr n \<Rightarrow>
          (case getitem dimension ''value'' of
             Inl e \<Rightarrow> Inl e
           | Inr v \<Rightarrow>
               (case alarm_dimensions_of dimensions of
                  Inl e \<Rightarrow> Inl e
                | Inr ds \<Rightarrow> Inr (\<lparr>dim_name = n, dim_value = v\<rparr> # ds))))"

text \<open>
  \<open>FakeAlarm.__init__\<close>.  \<open>t_conf\<close> and \<open>t_state\<close> are the instants its two calls of
  \<open>datetime.utcnow()\<close> return.
\<close>

definition FakeAlarm_init ::
  "instant \<Rightarrow> instant \<Rightarrow> string \<Rightarrow> string \<Rightarrow> string \<Rightarrow> string \<Rightarrow> int \<Rightarrow> int \<Rightarrow> real \<Rightarrow> string \<Rightarrow>
   string \<Rightarrow> (string \<rightharpoonup> string) list \<Rightarrow> string list \<Rightarrow> string list \<Rightarrow> string list \<Rightarrow> string \<Rightarrow>
   bool \<Rightarrow> error + FakeAlarm" where
  "FakeAlarm_init t_conf t_state name namespace metric_name comparison_op evaluation_pds
     period thresh stat descr dimensions alarm_acts ok_acts insufficient_data_acts unit
     acts_enabled =
     (case alarm_dimensions_of dimensions of
        Inl e \<Rightarrow> Inl e
      | Inr ds \<Rightarrow>
          Inr \<lparr>alarm_name = name,
               alarm_namespace = namespace,
               alarm_metric_name = metric_name,
               comparison_operator = comparison_op,
               evaluation_periods = evaluation_pds,
               alarm_period = period,
               threshold = thresh,
               statistic = stat,
               description = descr,
               alarm_dimensions = ds,
               actions_enabled = acts_enabled,
               alarm_actions = alarm_acts,
               ok_actions = ok_acts,
               insufficient_data_actions = insufficient_data_acts,
               alarm_unit = unit,
               configuration_updated_timestamp = t_conf,
               history = [],
               state_reason = [],
               state_reason_data = Some ''{}'',
               state_value = ''OK'',
               state_updated_timestamp = t_state\<rparr>)"

text \<open>\<open>FakeAlarm.update_state\<close>; \<open>now\<close> is the instant \<open>datetime.utcnow()\<close> returns.\<close>

definition update_state ::
  "instant \<Rightarrow> FakeAlarm \<Rightarrow> string \<Rightarrow> string option \<Rightarrow> string \<Rightarrow> FakeAlarm" where
  "update_state now self reason reason_data state_val =
     self\<lparr>history := history self @
              [(''StateUpdate'', state_reason self, state_reason_data self, state_value self,
                state_updated_timestamp self)],
          state_reason := reason,
          state_reason_data := reason_data,
          state_value := state_val,
          state_updated_timestamp := now\<rparr>"

section \<open>Dates and times\<close>

text \<open>
  A \<open>datetime\<close> is the reading of its own clock, in microseconds since
  0001-01-01T00:00:00, and its offset from UTC, in microseconds; a naive \<open>datetime\<close>, one
  without time zone, has no offset.  The readings of \<open>datetime.min\<close> and \<open>datetime.max\<close> are
  0 and \<open>max_wall - 1\<close>: the year 9999 ends 3652059 days after the origin.
\<close>

record datetime =
  dt_wall :: int
  dt_utcoffset :: "int option"

definition max_wall :: int where
  "max_wall = 3652059 * 86400000000"

definition aware :: "datetime \<Rightarrow> bool" where
  "aware d \<longleftrightarrow> dt_utcoffset d \<noteq> None"

text \<open>The instant a \<open>datetime\<close> stands for: its reading less its offset.\<close>

definition utc :: "datetime \<Rightarrow> int" where
  "utc d = dt_wall d - (case dt_utcoffset d of None \<Rightarrow> 0 | Some off \<Rightarrow> off)"

text \<open>
  \<open>a < b\<close> and \<open>a <= b\<close>: two naive datetimes compare by their readings, two aware ones by
  their instants, and a naive one against an aware one raises \<open>TypeError\<close>.  \<open>a == b\<close> is
  false for such a pair.
\<close>

definition dt_lt :: "datetime \<Rightarrow> datetime \<Rightarrow> error + bool" where
  "dt_lt a b = (if aware a = aware b then Inr (utc a < utc b) else Inl TypeError)"

definition dt_le :: "datetime \<Rightarrow> datetime \<Rightarrow> error + bool" where
  "dt_le a b = (if aware a = aware b then Inr (utc a \<le> utc b) else Inl TypeError)"

definition dt_eq :: "datetime \<Rightarrow> datetime \<Rightarrow> bool" where
  "dt_eq a b \<longleftrightarrow> aware a = aware b \<and> utc a = utc b"

text \<open>
  \<open>d + delta\<close>, for a \<open>timedelta\<close> of \<open>delta\<close> microseconds: the reading moves, the offset
  stays, and a reading outside the years 1 to 9999 raises \<open>OverflowError\<close>.
\<close>

definition dt_add :: "datetime \<Rightarrow> int \<Rightarrow> error + datetime" where
  "dt_add d delta =
     (if 0 \<le> dt_wall d + delta \<and> dt_wall d + delta < max_wall
      then Inr (d\<lparr>dt_wall := dt_wall d + delta\<rparr>)
      else Inl OverflowError)"

definition seconds :: "int \<Rightarrow> int" where
  "seconds n = n * 1000000"

text \<open>
  \<open>timedelta(seconds=n)\<close>, in microseconds: a \<open>timedelta\<close> has at most 999999999 days, on
  either side of 0, and raises \<open>OverflowError\<close> beyond.
\<close>

definition timedelta :: "int \<Rightarrow> error + int" where
  "timedelta n =
     (if - 999999999 \<le> n div 86400 \<and> n div 86400 \<le> 999999999
      then Inr (seconds n)
      else Inl OverflowError)"

section \<open>Metric data, dashboards and the backend\<close>

record MetricDatum =
  md_namespace :: string
  md_name :: string
  md_value :: real
  md_timestamp :: datetime
  md_dimensions :: "Dimension list"

record Dashboard =
  dash_arn :: string
  dash_name :: string
  dash_body :: string
  last_modified :: instant

record CloudWatchBackend =
  alarms :: "(string, FakeAlarm) dict"
  dashboards :: "(string, Dashboard) dict"
  metric_data :: "MetricDatum list"
  paged_metric_data :: "(string, MetricDatum list) dict"

text \<open>\<open>CloudWatchBackend.__init__\<close>.\<close>

definition CloudWatchBackend_init :: CloudWatchBackend where
  "CloudWatchBackend_init =
     \<lparr>alarms = [], dashboards = [], metric_data = [], paged_metric_data = []\<rparr>"

text \<open>
  A method that changes the backend returns its result (or the exception it raises)
  together with the backend it leaves behind.
\<close>

definition put_metric_alarm ::
  "instant \<Rightarrow> instant \<Rightarrow> CloudWatchBackend \<Rightarrow> string \<Rightarrow> string \<Rightarrow> string \<Rightarrow> string \<Rightarrow> int \<Rightarrow> int \<Rightarrow>
   real \<Rightarrow> string \<Rightarrow> string \<Rightarrow> (string \<rightharpoonup> string) list \<Rightarrow> string list \<Rightarrow> string list \<Rightarrow>
   string list \<Rightarrow> string \<Rightarrow> bool \<Rightarrow> (error + FakeAlarm) \<times> CloudWatchBackend" where
  "put_metric_alarm t_conf t_state self name namespace metric_name comparison_op
     evaluation_pds period thresh stat descr dimensions alarm_acts ok_acts
     insufficient_data_acts unit acts_enabled =
     (case FakeAlarm_init t_conf t_state name namespace metric_name comparison_op
             evaluation_pds period thresh stat descr dimensions alarm_acts ok_acts
             insufficient_data_acts unit acts_enabled of
        Inl e \<Rightarrow> (Inl e, self)
      | Inr alarm \<Rightarrow> (Inr alarm, self\<lparr>alarms := AList.update name alarm (alarms self)\<rparr>))"

definition get_all_alarms :: "CloudWatchBackend \<Rightarrow> FakeAlarm list" where
  "get_all_alarms self = dict_values (alarms self)"

definition get_alarms_by_alarm_name_prefix :: "CloudWatchBackend \<Rightarrow> string \<Rightarrow> FakeAlarm list" where
  "get_alarms_by_alarm_name_prefix self name_prefix =
     filter (\<lambda>alarm. prefix name_prefix (alarm_name alarm)) (dict_values (alarms self))"

definition get_alarms_by_alarm_names :: "CloudWatchBackend \<Rightarrow> string list \<Rightarrow> FakeAlarm list" where
  "get_alarms_by_alarm_names self alarm_names =
     filter (\<lambda>alarm. alarm_name alarm \<in> set alarm_names) (dict_values (alarms self))"

definition get_alarms_by_state_value :: "CloudWatchBackend \<Rightarrow> string \<Rightarrow> FakeAlarm list" where
  "get_alarms_by_state_value self target_state =
     filter (\<lambda>alarm. state_value alarm = target_state) (dict_values (alarms self))"

text \<open>\<open>delete_alarms\<close>: \<open>self.alarms.pop(alarm_name, None)\<close> for each name, in order.\<close>

definition delete_alarms :: "CloudWatchBackend \<Rightarrow> string list \<Rightarrow> CloudWatchBackend" where
  "delete_alarms self alarm_names =
     self\<lparr>alarms := fold AList.delete alarm_names (alarms self)\<rparr>"

text \<open>
  \<open>set_alarm_state\<close>.  \<open>json.loads\<close> is the standard library's: \<open>loads s\<close> is \<open>None\<close>
  when \<open>json.loads(s)\<close> returns, and the exception it raises otherwise, \<open>ValueError\<close>
  standing for \<open>ValueError\<close> and its subclasses.  The \<open>except\<close> clause catches
  \<open>ValueError\<close> only: any other exception leaves the method as it is.  The three tests
  come in the order of the source.
\<close>

definition set_alarm_state ::
  "(string \<Rightarrow> error option) \<Rightarrow> instant \<Rightarrow> CloudWatchBackend \<Rightarrow> string \<Rightarrow> string \<Rightarrow>
   string option \<Rightarrow> string \<Rightarrow> (error + unit) \<times> CloudWatchBackend" where
  "set_alarm_state loads now self name reason reason_data state_val =
     (case (case reason_data of None \<Rightarrow> None | Some s \<Rightarrow> loads s) of
        Some e \<Rightarrow>
          if e = ValueError
          then (Inl (RESTError ''InvalidFormat'' ''StateReasonData is invalid JSON''), self)
          else (Inl e, self)
      | None \<Rightarrow>
          if name \<notin> set (keys (alarms self))
          then (Inl (RESTError ''ResourceNotFound'' (''Alarm '' @ name @ '' not found'')), self)
          else if state_val \<notin> set [''OK'', ''ALARM'', ''INSUFFICIENT_DATA'']
          then (Inl (RESTError ''InvalidParameterValue''
                       ''StateValue is not one of OK | ALARM | INSUFFICIENT_DATA''), self)
          else (case map_of (alarms self) name of
                  None \<Rightarrow> (Inl (KeyError name), self)
                | Some alarm \<Rightarrow>
                    (Inr (),
                     self\<lparr>alarms :=
                       AList.update name (update_state now alarm reason reason_data state_val)
                         (alarms self)\<rparr>)))"

text \<open>
  The invariant of the alarm registry: a dictionary has distinct keys, and
  \<open>put_metric_alarm\<close>, the one method that stores an alarm, stores it under its name.
\<close>

definition alarms_wf :: "CloudWatchBackend \<Rightarrow> bool" where
  "alarms_wf self \<longleftrightarrow>
     distinct (keys (alarms self)) \<and>
     list_all (\<lambda>(k, alarm). alarm_name alarm = k) (alarms self)"

section \<open>Listing metrics\<close>

text \<open>Python's truth test on an optional string: \<open>None\<close> and \<open>""\<close> are false.\<close>

definition truthy :: "string option \<Rightarrow> bool" where
  "truthy x = (case x of None \<Rightarrow> False | Some s \<Rightarrow> s \<noteq> [])"

text \<open>
  \<open>any(Dimension(d["Name"], d["Value"]) not in self.dimensions for d in dimensions)\<close>:
  the generator is read one item at a time and \<open>any\<close> stops at the first true one;
  \<open>in\<close> compares with \<open>Dimension.__eq__\<close>.
\<close>

fun any_not_in :: "Dimension list \<Rightarrow> (string \<rightharpoonup> string) list \<Rightarrow> error + bool" where
  "any_not_in self_dimensions [] = Inr False"
| "any_not_in self_dimensions (d # dimensions) =
     (case getitem d ''Name'' of
        Inl e \<Rightarrow> Inl e
      | Inr n \<Rightarrow>
          (case getitem d ''Value'' of
             Inl e \<Rightarrow> Inl e
           | Inr v \<Rightarrow>
               if \<not> list_ex (Dimension_eq \<lparr>dim_name = n, dim_value = v\<rparr>) self_dimensions
               then Inr True
               else any_not_in self_dimensions dimensions))"

text \<open>\<open>MetricDatum.filter\<close>.  An absent or empty list of dimensions is false.\<close>

definition MetricDatum_filter ::
  "MetricDatum \<Rightarrow> string option \<Rightarrow> string option \<Rightarrow> (string \<rightharpoonup> string) list option \<Rightarrow>
   error + bool" where
  "MetricDatum_filter self namespace name dimensions =
     (if truthy namespace \<and> namespace \<noteq> Some (md_namespace self) then Inr False
      else if truthy name \<and> name \<noteq> Some (md_name self) then Inr False
      else (case dimensions of
              None \<Rightarrow> Inr True
            | Some ds \<Rightarrow>
                if ds = [] then Inr True
                else (case any_not_in (md_dimensions self) ds of
                        Inl e \<Rightarrow> Inl e
                      | Inr b \<Rightarrow> if b then Inr False else Inr True)))"

text \<open>
  \<open>get_all_metrics\<close>.  \<open>aws_metric_data\<close> is what the registered metric providers
  give, a parameter of the model.
\<close>

definition get_all_metrics :: "MetricDatum list \<Rightarrow> CloudWatchBackend \<Rightarrow> MetricDatum list" where
  "get_all_metrics aws_metric_data self = metric_data self @ aws_metric_data"

text \<open>The comprehension of \<open>get_filtered_metrics\<close>.\<close>

fun filter_metrics ::
  "MetricDatum list \<Rightarrow> string option \<Rightarrow> string option \<Rightarrow> (string \<rightharpoonup> string) list option \<Rightarrow>
   error + MetricDatum list" where
  "filter_metrics [] namespace name dimensions = Inr []"
| "filter_metrics (md # metrics) namespace name dimensions =
     (case MetricDatum_filter md namespace name dimensions of
        Inl e \<Rightarrow> Inl e
      | Inr keep \<Rightarrow>
          (case filter_metrics metrics namespace name dimensions of
             Inl e \<Rightarrow> Inl e
           | Inr rest \<Rightarrow> Inr (if keep then md # rest else rest)))"

definition get_filtered_metrics ::
  "MetricDatum list \<Rightarrow> CloudWatchBackend \<Rightarrow> string option \<Rightarrow> string option \<Rightarrow>
   (string \<rightharpoonup> string) list option \<Rightarrow> error + MetricDatum list" where
  "get_filtered_metrics aws_metric_data self metric_name namespace dimensions =
     filter_metrics (get_all_metrics aws_metric_data self) namespace metric_name dimensions"

text \<open>
  \<open>_get_paginated\<close>.  \<open>uuid\<close> is the text \<open>str(uuid4())\<close> gives when the method asks
  for it.
\<close>

definition get_paginated ::
  "string \<Rightarrow> CloudWatchBackend \<Rightarrow> MetricDatum list \<Rightarrow>
   (string option \<times> MetricDatum list) \<times> CloudWatchBackend" where
  "get_paginated uuid self metrics =
     (if length metrics > 500
      then ((Some uuid, take 500 metrics),
            self\<lparr>paged_metric_data :=
              AList.update uuid (drop 500 metrics) (paged_metric_data self)\<rparr>)
      else ((None, metrics), self))"

definition list_metrics ::
  "string \<Rightarrow> MetricDatum list \<Rightarrow> CloudWatchBackend \<Rightarrow> string option \<Rightarrow> string option \<Rightarrow>
   string option \<Rightarrow> (string \<rightharpoonup> string) list option \<Rightarrow>
   (error + string option \<times> MetricDatum list) \<times> CloudWatchBackend" where
  "list_metrics uuid aws_metric_data self next_token namespace metric_name dimensions =
     (if truthy next_token then
        (case map_of (paged_metric_data self) (the next_token) of
           None \<Rightarrow>
             (Inl (RESTError ''PaginationException'' ''Request parameter NextToken is invalid''),
              self)
         | Some metrics \<Rightarrow>
             (case get_paginated uuid
                     (self\<lparr>paged_metric_data :=
                        AList.delete (the next_token) (paged_metric_data self)\<rparr>) metrics of
                (r, self') \<Rightarrow> (Inr r, self')))
      else
        (case get_filtered_metrics aws_metric_data self metric_name namespace dimensions of
           Inl e \<Rightarrow> (Inl e, self)
         | Inr metrics \<Rightarrow>
             (case get_paginated uuid self metrics of (r, self') \<Rightarrow> (Inr r, self'))))"

section \<open>Statistics\<close>

text \<open>
  \<open>daterange\<close> is a generator: it yields a datetime, the loop that reads it runs its body,
  and only then does the generator go on.  The model returns the datetimes it yields, in
  order, and how it ends: with an exception, raised after the last of them was read, or with
  the value of \<open>start\<close> it stops at.  The sign of \<open>step\<close>, which chooses the loop in the
  source, stands in each loop's test so that the loop is a total function.
\<close>

function daterange_up :: "datetime \<Rightarrow> datetime \<Rightarrow> int \<Rightarrow> datetime list \<times> (error + datetime)" where
  "daterange_up start stop step =
     (case dt_lt start stop of
        Inl e \<Rightarrow> ([], Inl e)
      | Inr continue \<Rightarrow>
          if 0 < step \<and> continue then
            (case dt_add start step of
               Inl e \<Rightarrow> ([start], Inl e)
             | Inr start' \<Rightarrow>
                 (case daterange_up start' stop step of (ys, r) \<Rightarrow> (start # ys, r)))
          else ([], Inr start))"
  by pat_completeness auto
termination
  by (relation "measure (\<lambda>(start, stop, step). nat (utc stop - utc start))")
    (auto simp: dt_lt_def dt_add_def utc_def split: if_splits)

function daterange_down :: "datetime \<Rightarrow> datetime \<Rightarrow> int \<Rightarrow> datetime list \<times> (error + datetime)" where
  "daterange_down start stop step =
     (case dt_lt stop start of
        Inl e \<Rightarrow> ([], Inl e)
      | Inr continue \<Rightarrow>
          if step < 0 \<and> continue then
            (case dt_add start step of
               Inl e \<Rightarrow> ([start], Inl e)
             | Inr start' \<Rightarrow>
                 (case daterange_down start' stop step of (ys, r) \<Rightarrow> (start # ys, r)))
          else ([], Inr start))"
  by pat_completeness auto
termination
  by (relation "measure (\<lambda>(start, stop, step). nat (utc start - utc stop))")
    (auto simp: dt_lt_def dt_add_def utc_def split: if_splits)

declare daterange_up.simps [simp del] daterange_down.simps [simp del]

text \<open>The exception a generator ends with, if any.\<close>

definition ending_of :: "error + datetime \<Rightarrow> error option" where
  "ending_of r = (case r of Inl e \<Rightarrow> Some e | Inr start \<Rightarrow> None)"

definition daterange ::
  "datetime \<Rightarrow> datetime \<Rightarrow> int \<Rightarrow> bool \<Rightarrow> datetime list \<times> error option" where
  "daterange start stop step inclusive =
     (if step = 0 then ([], Some AssertionError)
      else (case (if 0 < step then daterange_up start stop step
                  else daterange_down start stop step) of
              (ys, r) \<Rightarrow>
                (case r of
                   Inl e \<Rightarrow> (ys, Some e)
                 | Inr start' \<Rightarrow>
                     (ys @ (if inclusive \<and> dt_eq start' stop then [start'] else []), None))))"

text \<open>
  \<open>Statistics\<close>.  \<open>iso_8601_datetime_without_milliseconds\<close> comes from
  \<open>moto.core.utils\<close>: it is the parameter \<open>fmt\<close> of \<open>get_metric_statistics\<close>, and
  \<open>st_timestamp\<close> holds the text it gives.
\<close>

record Statistics =
  st_timestamp :: string
  st_values :: "real list"
  st_stats :: "string list"

text \<open>
  The properties of \<open>Statistics\<close>; \<open>None\<close> is Python's \<open>None\<close>.  \<open>sum\<close> adds from the
  left, starting at 0; \<open>min\<close> and \<open>max\<close> of an empty list raise \<open>ValueError\<close>, and the
  division of \<open>average\<close> by a length of zero raises \<open>ZeroDivisionError\<close>.  The values are
  real numbers and the sums are exact: the rounding of floating-point addition and
  division is not modelled.
\<close>

definition Statistics_sample_count :: "Statistics \<Rightarrow> nat option" where
  "Statistics_sample_count self =
     (if ''SampleCount'' \<notin> set (st_stats self) then None else Some (length (st_values self)))"

definition Statistics_unit :: "Statistics \<Rightarrow> string option" where
  "Statistics_unit self = None"

definition Statistics_sum :: "Statistics \<Rightarrow> real option" where
  "Statistics_sum self =
     (if ''Sum'' \<notin> set (st_stats self) then None else Some (foldl (+) 0 (st_values self)))"

definition Statistics_minimum :: "Statistics \<Rightarrow> error + real option" where
  "Statistics_minimum self =
     (if ''Minimum'' \<notin> set (st_stats self) then Inr None
      else (case st_values self of
              [] \<Rightarrow> Inl ValueError
            | v # vs \<Rightarrow> Inr (Some (foldl min v vs))))"

definition Statistics_maximum :: "Statistics \<Rightarrow> error + real option" where
  "Statistics_maximum self =
     (if ''Maximum'' \<notin> set (st_stats self) then Inr None
      else (case st_values self of
              [] \<Rightarrow> Inl ValueError
            | v # vs \<Rightarrow> Inr (Some (foldl max v vs))))"

definition Statistics_average :: "Statistics \<Rightarrow> error + real option" where
  "Statistics_average self =
     (if ''Average'' \<notin> set (st_stats self) then Inr None
      else if length (st_values self) = 0 then Inl ZeroDivisionError
      else Inr (Some (foldl (+) 0 (st_values self) / real (length (st_values self)))))"

text \<open>
  The inner \<open>while\<close> of \<open>get_metric_statistics\<close>, on \<open>rest = filtered_data[idx:]\<close>: it
  moves the values of the leading points whose timestamp is before \<open>dt + period_delta\<close>
  into \<open>s.values\<close>.  Each test computes \<open>dt + period_delta\<close> and compares.
\<close>

fun take_values ::
  "datetime \<Rightarrow> int \<Rightarrow> MetricDatum list \<Rightarrow> error + real list \<times> MetricDatum list" where
  "take_values dt period_delta [] = Inr ([], [])"
| "take_values dt period_delta (md # rest) =
     (case dt_add dt period_delta of
        Inl e \<Rightarrow> Inl e
      | Inr bound \<Rightarrow>
          (case dt_lt (md_timestamp md) bound of
             Inl e \<Rightarrow> Inl e
           | Inr before \<Rightarrow>
               if before then
                 (case take_values dt period_delta rest of
                    Inl e \<Rightarrow> Inl e
                  | Inr (vals, rest') \<Rightarrow> Inr (md_value md # vals, rest'))
               else Inr ([], md # rest)))"

text \<open>
  The \<open>for\<close> loop of \<open>get_metric_statistics\<close> over the datetimes \<open>dt\<close> the generator
  yields; \<open>ending\<close> is the exception the generator ends with, if any.  A window with no
  value is skipped.  Each window is returned with the datetime \<open>dt\<close> it starts at.
\<close>

fun windows ::
  "(datetime \<Rightarrow> string) \<Rightarrow> string list \<Rightarrow> int \<Rightarrow> MetricDatum list \<Rightarrow> datetime list \<Rightarrow>
   error option \<Rightarrow> error + (datetime \<times> Statistics) list" where
  "windows fmt stats period_delta rest [] ending =
     (case ending of None \<Rightarrow> Inr [] | Some e \<Rightarrow> Inl e)"
| "windows fmt stats period_delta rest (dt # dts) ending =
     (case take_values dt period_delta rest of
        Inl e \<Rightarrow> Inl e
      | Inr (vals, rest') \<Rightarrow>
          (case windows fmt stats period_delta rest' dts ending of
             Inl e \<Rightarrow> Inl e
           | Inr ws \<Rightarrow>
               Inr (if vals = [] then ws
                    else (dt, \<lparr>st_timestamp = fmt dt, st_values = vals, st_stats = stats\<rparr>) #
                         ws)))"

text \<open>
  The comprehension that filters the stored points.  \<open>and\<close> and the chained comparison
  stop at the first false test, so a point of another namespace or name is not compared,
  and \<open>md.timestamp <= end_time\<close> is tested only when \<open>start_time <= md.timestamp\<close>
  holds.
\<close>

fun select_data ::
  "MetricDatum list \<Rightarrow> string \<Rightarrow> string \<Rightarrow> datetime \<Rightarrow> datetime \<Rightarrow> error + MetricDatum list" where
  "select_data [] namespace metric_name start_time end_time = Inr []"
| "select_data (md # mds) namespace metric_name start_time end_time =
     (case (if md_namespace md = namespace \<and> md_name md = metric_name
            then (case dt_le start_time (md_timestamp md) of
                    Inl e \<Rightarrow> Inl e
                  | Inr after_start \<Rightarrow>
                      if after_start then dt_le (md_timestamp md) end_time else Inr False)
            else Inr False) of
        Inl e \<Rightarrow> Inl e
      | Inr keep \<Rightarrow>
          (case select_data mds namespace metric_name start_time end_time of
             Inl e \<Rightarrow> Inl e
           | Inr rest \<Rightarrow> Inr (if keep then md # rest else rest)))"

text \<open>
  \<open>sorted(filtered_data, key=lambda x: x.timestamp)\<close>: a stable sort by \<open><\<close> on the
  timestamps.  A sort has to compare across any split of its list in two, so it raises
  \<open>TypeError\<close> when the list holds a naive and an aware timestamp.
\<close>

definition sorted_by_timestamp :: "MetricDatum list \<Rightarrow> error + MetricDatum list" where
  "sorted_by_timestamp xs =
     (if list_all (\<lambda>md. aware (md_timestamp md) = aware (md_timestamp (hd xs))) xs
      then Inr (sort_key (\<lambda>md. utc (md_timestamp md)) xs)
      else Inl TypeError)"

text \<open>The points \<open>get_metric_statistics\<close> keeps, sorted by their timestamp.\<close>

definition filtered_data ::
  "CloudWatchBackend \<Rightarrow> string \<Rightarrow> string \<Rightarrow> datetime \<Rightarrow> datetime \<Rightarrow> error + MetricDatum list" where
  "filtered_data self namespace metric_name start_time end_time =
     (case select_data (metric_data self) namespace metric_name start_time end_time of
        Inl e \<Rightarrow> Inl e
      | Inr selected \<Rightarrow> sorted_by_timestamp selected)"

text \<open>
  \<open>get_metric_statistics\<close> with each window's start, and as the source returns it.  The
  first statement, \<open>timedelta(seconds=period)\<close>, comes before the filter.
\<close>

definition get_metric_statistics_windows ::
  "(datetime \<Rightarrow> string) \<Rightarrow> CloudWatchBackend \<Rightarrow> string \<Rightarrow> string \<Rightarrow> datetime \<Rightarrow> datetime \<Rightarrow> int \<Rightarrow>
   string list \<Rightarrow> error + (datetime \<times> Statistics) list" where
  "get_metric_statistics_windows fmt self namespace metric_name start_time end_time period stats =
     (case timedelta period of
        Inl e \<Rightarrow> Inl e
      | Inr period_delta \<Rightarrow>
          (case filtered_data self namespace metric_name start_time end_time of
             Inl e \<Rightarrow> Inl e
           | Inr fd \<Rightarrow>
               if fd = [] then Inr []
               else (case dt_add (md_timestamp (last fd)) period_delta of
                       Inl e \<Rightarrow> Inl e
                     | Inr stop \<Rightarrow>
                         (case daterange (md_timestamp (hd fd)) stop period_delta False of
                            (dts, ending) \<Rightarrow> windows fmt stats period_delta fd dts ending))))"

definition get_metric_statistics ::
  "(datetime \<Rightarrow> string) \<Rightarrow> CloudWatchBackend \<Rightarrow> string \<Rightarrow> string \<Rightarrow> datetime \<Rightarrow> datetime \<Rightarrow> int \<Rightarrow>
   string list \<Rightarrow> error + Statistics list" where
  "get_metric_statistics fmt self namespace metric_name start_time end_time period stats =
     (case get_metric_statistics_windows fmt self namespace metric_name start_time end_time
             period stats of
        Inl e \<Rightarrow> Inl e
      | Inr ws \<Rightarrow> Inr (map snd ws))"

section \<open>Dashboards\<close>

text \<open>
  \<open>put_dashboard\<close>.  \<open>make_arn\<close> is \<open>make_arn_for_dashboard\<close> at the account's
  identifier (both come from other modules) and \<open>now\<close> is the instant
  \<open>datetime.now()\<close> returns.
\<close>

definition put_dashboard ::
  "(string \<Rightarrow> string) \<Rightarrow> instant \<Rightarrow> CloudWatchBackend \<Rightarrow> string \<Rightarrow> string \<Rightarrow> CloudWatchBackend" where
  "put_dashboard make_arn now self name body =
     self\<lparr>dashboards :=
       AList.update name
         \<lparr>dash_arn = make_arn name, dash_name = name, dash_body = body, last_modified = now\<rparr>
         (dashboards self)\<rparr>"

definition get_dashboard :: "CloudWatchBackend \<Rightarrow> string \<Rightarrow> Dashboard option" where
  "get_dashboard self dashboard = map_of (dashboards self) dashboard"

text \<open>\<open>sep.join(xs)\<close>.\<close>

fun join :: "string \<Rightarrow> string list \<Rightarrow> string" where
  "join sep [] = []"
| "join sep [x] = x"
| "join sep (x # y # ys) = x @ sep @ join sep (y # ys)"

text \<open>
  The loop \<open>for dashboard in to_delete: del self.dashboards[dashboard]\<close>: the dictionary
  it leaves, and the \<open>KeyError\<close> that stopped it, if any.
\<close>

fun del_each ::
  "string list \<Rightarrow> (string, 'v) dict \<Rightarrow> error option \<times> (string, 'v) dict" where
  "del_each [] d = (None, d)"
| "del_each (k # ks) d =
     (case dict_del k d of
        Inl e \<Rightarrow> (Some e, d)
      | Inr d' \<Rightarrow> del_each ks d')"

text \<open>
  \<open>delete_dashboards\<close>.  Python does not say in which order a \<open>set\<close> is read: the
  parameter \<open>order\<close> gives, for the elements of a set, the order in which the set is read.
  The method returns a pair and raises nothing of its own.
\<close>

definition delete_dashboards ::
  "(string list \<Rightarrow> string list) \<Rightarrow> CloudWatchBackend \<Rightarrow> string list \<Rightarrow>
   (error + bool \<times> string option) \<times> CloudWatchBackend" where
  "delete_dashboards order self names =
     (let to_delete = order (remdups names);
          all_dashboards = keys (dashboards self);
          left_over = order (filter (\<lambda>n. n \<notin> set all_dashboards) to_delete)
      in if length left_over > 0
         then (Inr (False,
                    Some (''The specified dashboard does not exist. ['' @
                          join '', '' left_over @ '']'')),
               self)
         else (case del_each to_delete (dashboards self) of
                 (Some e, d) \<Rightarrow> (Inl e, self\<lparr>dashboards := d\<rparr>)
               | (None, d) \<Rightarrow> (Inr (True, None), self\<lparr>dashboards := d\<rparr>)))"

text \<open>What the parameter \<open>order\<close> is known to do: it reorders, and nothing else.\<close>

definition reorders :: "(string list \<Rightarrow> string list) \<Rightarrow> bool" where
  "reorders order \<longleftrightarrow> (\<forall>xs. mset (order xs) = mset xs)"

section \<open>VPN gateways\<close>

record VPCGatewayAttachment =
  att_vpc_id :: string
  att_gateway_id :: "string option"
  att_state :: "string option"

record VpnGateway =
  gw_id :: string
  gw_type :: string
  amazon_side_asn :: "string option"
  availability_zone :: "string option"
  gw_state :: string
  gw_tags :: "(string, string) dict"
  attachments :: "(string, VPCGatewayAttachment) dict"

record VpnGatewayBackend =
  vpn_gateways :: "(string, VpnGateway) dict"

text \<open>
  \<open>create_vpn_gateway\<close>; \<open>vpn_gateway_id\<close> is what \<open>random_vpn_gateway_id()\<close> returns.
\<close>

definition create_vpn_gateway ::
  "string \<Rightarrow> VpnGatewayBackend \<Rightarrow> string \<Rightarrow> string option \<Rightarrow> string option \<Rightarrow>
   (string, string) dict \<Rightarrow> VpnGateway \<times> VpnGatewayBackend" where
  "create_vpn_gateway vpn_gateway_id self gateway_type asn zone tags =
     (let vpn_gateway =
            \<lparr>gw_id = vpn_gateway_id, gw_type = gateway_type, amazon_side_asn = asn,
             availability_zone = zone, gw_state = ''available'', gw_tags = tags,
             attachments = []\<rparr>
      in (vpn_gateway,
          self\<lparr>vpn_gateways := AList.update vpn_gateway_id vpn_gateway (vpn_gateways self)\<rparr>))"

definition get_vpn_gateway :: "VpnGatewayBackend \<Rightarrow> string \<Rightarrow> error + VpnGateway" where
  "get_vpn_gateway self vpn_gateway_id =
     (case map_of (vpn_gateways self) vpn_gateway_id of
        None \<Rightarrow> Inl (InvalidVpnGatewayIdError vpn_gateway_id)
      | Some vpn_gateway \<Rightarrow> Inr vpn_gateway)"

text \<open>
  \<open>attach_vpn_gateway\<close>.  \<open>self.get_vpc\<close> is a method of the VPC backend, another
  module: the parameter \<open>get_vpc\<close> gives the exception it raises, or \<open>None\<close> when it
  returns.  The loop runs over the keys of a copy of the attachments.
\<close>

definition attach_vpn_gateway ::
  "(string \<Rightarrow> error option) \<Rightarrow> VpnGatewayBackend \<Rightarrow> string \<Rightarrow> string \<Rightarrow>
   (error + VPCGatewayAttachment) \<times> VpnGatewayBackend" where
  "attach_vpn_gateway get_vpc self vpn_gateway_id vpc_id =
     (case get_vpn_gateway self vpn_gateway_id of
        Inl e \<Rightarrow> (Inl e, self)
      | Inr vpn_gateway \<Rightarrow>
          (case get_vpc vpc_id of
             Some e \<Rightarrow> (Inl e, self)
           | None \<Rightarrow>
               (let attachment =
                      \<lparr>att_vpc_id = vpc_id, att_gateway_id = None, att_state = Some ''attached''\<rparr>;
                    kept = fold (\<lambda>key d. if prefix ''vpc-'' key then AList.delete key d else d)
                             (keys (attachments vpn_gateway)) (attachments vpn_gateway);
                    vpn_gateway' =
                      vpn_gateway\<lparr>attachments := AList.update vpc_id attachment kept\<rparr>
                in (Inr attachment,
                    self\<lparr>vpn_gateways :=
                      AList.update vpn_gateway_id vpn_gateway' (vpn_gateways self)\<rparr>))))"

definition delete_vpn_gateway ::
  "VpnGatewayBackend \<Rightarrow> string \<Rightarrow> (error + VpnGateway) \<times> VpnGatewayBackend" where
  "delete_vpn_gateway self vpn_gateway_id =
     (case map_of (vpn_gateways self) vpn_gateway_id of
        None \<Rightarrow> (Inl (InvalidVpnGatewayIdError vpn_gateway_id), self)
      | Some deleted \<Rightarrow>
          (Inr (deleted\<lparr>gw_state := ''deleted''\<rparr>),
           self\<lparr>vpn_gateways :=
             AList.update vpn_gateway_id (deleted\<lparr>gw_state := ''deleted''\<rparr>)
               (vpn_gateways self)\<rparr>))"

text \<open>
  \<open>detach_vpn_gateway\<close>.  The attachment is an object the dictionary holds: the
  assignment to its \<open>state\<close> changes the entry of the dictionary.
\<close>

definition detach_vpn_gateway ::
  "VpnGatewayBackend \<Rightarrow> string \<Rightarrow> string \<Rightarrow>
   (error + VPCGatewayAttachment) \<times> VpnGatewayBackend" where
  "detach_vpn_gateway self vpn_gateway_id vpc_id =
     (case get_vpn_gateway self vpn_gateway_id of
        Inl e \<Rightarrow> (Inl e, self)
      | Inr vpn_gateway \<Rightarrow>
          (case map_of (attachments vpn_gateway) vpc_id of
             None \<Rightarrow>
               (Inl (InvalidVpnGatewayAttachmentError (gw_id vpn_gateway) vpc_id), self)
           | Some detached \<Rightarrow>
               (let detached' = detached\<lparr>att_state := Some ''detached''\<rparr>;
                    vpn_gateway' =
                      vpn_gateway\<lparr>attachments :=
                        AList.update vpc_id detached' (attachments vpn_gateway)\<rparr>
                in (Inr detached',
                    self\<lparr>vpn_gateways :=
                      AList.update vpn_gateway_id vpn_gateway' (vpn_gateways self)\<rparr>))))"

section \<open>A recogniser of JSON texts\<close>

text \<open>
  An instance of the parameter \<open>loads\<close>, for examples: a recogniser of the JSON grammar
  as the library's decoder reads it (a value between optional white space; objects,
  arrays, strings with escapes, numbers, \<open>null\<close>, \<open>true\<close>, \<open>false\<close> and the decoder's
  \<open>NaN\<close>, \<open>Infinity\<close>, \<open>-Infinity\<close>).  The scanners of strings and numbers return
  what is left of the text after the value they read, or \<open>None\<close> where the decoder
  raises \<open>ValueError\<close>.
\<close>

definition is_ws :: "char \<Rightarrow> bool" where
  "is_ws c \<longleftrightarrow> c \<in> set [CHR '' '', CHR 0x09, CHR 0x0A, CHR 0x0D]"

definition skip_ws :: "string \<Rightarrow> string" where
  "skip_ws s = dropWhile is_ws s"

definition is_digit :: "char \<Rightarrow> bool" where
  "is_digit c \<longleftrightarrow> c \<in> set ''0123456789''"

definition is_hex :: "char \<Rightarrow> bool" where
  "is_hex c \<longleftrightarrow> c \<in> set ''0123456789abcdefABCDEF''"

text \<open>The text after an opening quote, up to and including the closing quote.\<close>

fun scan_string :: "string \<Rightarrow> string option" where
  "scan_string [] = None"
| "scan_string (c # cs) =
     (if c = CHR 0x22 then Some cs
      else if c = CHR 0x5C then
        (case cs of
           [] \<Rightarrow> None
         | e # es \<Rightarrow>
             if e \<in> set [CHR 0x22, CHR 0x5C, CHR ''/'', CHR ''b'', CHR ''f'', CHR ''n'',
                          CHR ''r'', CHR ''t'']
             then scan_string es
             else if e = CHR ''u'' \<and> 4 \<le> length es \<and> list_all is_hex (take 4 es)
             then scan_string es
             else None)
      else if (of_char c :: nat) < 32 then None
      else scan_string cs)"

text \<open>
  A number is \<open>-?(0|[1-9][0-9]*)(\.[0-9]+)?([eE][-+]?[0-9]+)?\<close>; a fraction or an
  exponent that does not match is left in the text.
\<close>

definition scan_exp :: "string \<Rightarrow> string" where
  "scan_exp s =
     (case s of
        [] \<Rightarrow> s
      | e # r1 \<Rightarrow>
          if e = CHR ''e'' \<or> e = CHR ''E'' then
            (let r2 = (case r1 of
                         [] \<Rightarrow> r1
                       | sg # r \<Rightarrow> if sg = CHR ''+'' \<or> sg = CHR ''-'' then r else r1)
             in case r2 of
                  [] \<Rightarrow> s
                | d # r3 \<Rightarrow> if is_digit d then dropWhile is_digit r3 else s)
          else s)"

definition scan_frac :: "string \<Rightarrow> string" where
  "scan_frac s =
     (case s of
        p # d # r \<Rightarrow> if p = CHR ''.'' \<and> is_digit d then dropWhile is_digit r else s
      | _ \<Rightarrow> s)"

definition scan_number :: "string \<Rightarrow> string option" where
  "scan_number s =
     (let s1 = (case s of [] \<Rightarrow> s | m # r \<Rightarrow> if m = CHR ''-'' then r else s)
      in case s1 of
           [] \<Rightarrow> None
         | d # r \<Rightarrow>
             if d = CHR ''0'' then Some (scan_exp (scan_frac r))
             else if is_digit d then Some (scan_exp (scan_frac (dropWhile is_digit r)))
             else None)"

text \<open>
  A value, the items of an array after its bracket, and the members of an object after
  its brace.  A scanner returns what is left of the text, or the exception the decoder
  raises: \<open>ValueError\<close> on a text that is not JSON, and \<open>RecursionError\<close> when arrays and
  objects are nested deeper than the interpreter's stack allows.  The first argument
  bounds the number of calls (\<open>json_loads\<close> gives more than a text of its length can
  use); the second is the number of nested arrays and objects the stack still has room for.
\<close>

fun json_value :: "nat \<Rightarrow> nat \<Rightarrow> string \<Rightarrow> error + string"
  and json_array :: "nat \<Rightarrow> nat \<Rightarrow> string \<Rightarrow> error + string"
  and json_object :: "nat \<Rightarrow> nat \<Rightarrow> string \<Rightarrow> error + string" where
  "json_value 0 depth s = Inl ValueError"
| "json_value (Suc n) depth s =
     (case s of
        [] \<Rightarrow> Inl ValueError
      | c # r \<Rightarrow>
          if c = CHR 0x22 then
            (case scan_string r of None \<Rightarrow> Inl ValueError | Some t \<Rightarrow> Inr t)
          else if c = CHR ''{'' then
            (case depth of
               0 \<Rightarrow> Inl RecursionError
             | Suc d \<Rightarrow>
                 (case skip_ws r of
                    [] \<Rightarrow> Inl ValueError
                  | b # t \<Rightarrow> if b = CHR ''}'' then Inr t else json_object n d (b # t)))
          else if c = CHR ''['' then
            (case depth of
               0 \<Rightarrow> Inl RecursionError
             | Suc d \<Rightarrow>
                 (case skip_ws r of
                    [] \<Rightarrow> Inl ValueError
                  | b # t \<Rightarrow> if b = CHR '']'' then Inr t else json_array n d (b # t)))
          else if prefix ''null'' s then Inr (drop 4 s)
          else if prefix ''true'' s then Inr (drop 4 s)
          else if prefix ''false'' s then Inr (drop 5 s)
          else (case scan_number s of
                  Some t \<Rightarrow> Inr t
                | None \<Rightarrow>
                    if prefix ''NaN'' s then Inr (drop 3 s)
                    else if prefix ''Infinity'' s then Inr (drop 8 s)
                    else if prefix ''-Infinity'' s then Inr (drop 9 s)
                    else Inl ValueError))"
| "json_array 0 depth s = Inl ValueError"
| "json_array (Suc n) depth s =
     (case json_value n depth s of
        Inl e \<Rightarrow> Inl e
      | Inr r \<Rightarrow>
          (case skip_ws r of
             [] \<Rightarrow> Inl ValueError
           | c # t \<Rightarrow>
               if c = CHR '']'' then Inr t
               else if c = CHR '','' then json_array n depth (skip_ws t)
               else Inl ValueError))"
| "json_object 0 depth s = Inl ValueError"
| "json_object (Suc n) depth s =
     (case s of
        [] \<Rightarrow> Inl ValueError
      | q # r \<Rightarrow>
          if q \<noteq> CHR 0x22 then Inl ValueError
          else
            (case scan_string r of
               None \<Rightarrow> Inl ValueError
             | Some r1 \<Rightarrow>
                 (case skip_ws r1 of
                    [] \<Rightarrow> Inl ValueError
                  | c # r2 \<Rightarrow>
                      if c \<noteq> CHR '':'' then Inl ValueError
                      else
                        (case json_value n depth (skip_ws r2) of
                           Inl e \<Rightarrow> Inl e
                         | Inr r3 \<Rightarrow>
                             (case skip_ws r3 of
                                [] \<Rightarrow> Inl ValueError
                              | d # t \<Rightarrow>
                                  if d = CHR ''}'' then Inr t
                                  else if d = CHR '','' then json_object n depth (skip_ws t)
                                  else Inl ValueError)))))"

text \<open>
  \<open>json_loads depth s\<close> is \<open>None\<close> when \<open>json.loads(s)\<close> returns and the exception it
  raises otherwise.
\<close>

definition json_loads :: "nat \<Rightarrow> string \<Rightarrow> error option" where
  "json_loads depth s =
     (case json_value (2 * length s + 2) depth (skip_ws s) of
        Inl e \<Rightarrow> Some e
      | Inr r \<Rightarrow> if skip_ws r = [] then None else Some ValueError)"

section \<open>Example states\<close>

text \<open>
  A registry holding the alarm \<open>cpu-high\<close>, and the same registry after the alarm was
  set to \<open>ALARM\<close>.
\<close>

definition example_alarms :: CloudWatchBackend where
  "example_alarms =
     snd (put_metric_alarm 10 11 CloudWatchBackend_init ''cpu-high'' ''AWS/EC2''
            ''CPUUtilization'' ''GreaterThanThreshold'' 1 60 80 ''Average'' ''cpu''
            [[''name'' \<mapsto> ''InstanceId'', ''value'' \<mapsto> ''i-1'']] [''arn:a''] [] []
            ''Percent'' True)"

definition example_alarmed :: CloudWatchBackend where
  "example_alarmed =
     snd (set_alarm_state (json_loads 900) 20 example_alarms ''cpu-high'' ''manual''
            (Some ''{}'') ''ALARM'')"

text \<open>A registry whose only dashboard is \<open>a\<close>.\<close>

definition example_dashboards :: CloudWatchBackend where
  "example_dashboards =
     put_dashboard (\<lambda>name. ''arn:aws:cloudwatch::123456789012:dashboard/'' @ name) 5
       CloudWatchBackend_init ''a'' ''{}''"

text \<open>A gateway \<open>vgw-1\<close> attached to the VPC \<open>vpc-1\<close>.\<close>

definition example_gateways :: VpnGatewayBackend where
  "example_gateways =
     snd (attach_vpn_gateway (\<lambda>vpc_id. None)
            (snd (create_vpn_gateway ''vgw-1'' \<lparr>vpn_gateways = []\<rparr> ''ipsec.1'' None None []))
            ''vgw-1'' ''vpc-1'')"

text \<open>
  The datetime \<open>t\<close> seconds after 0001-01-01T00:00:00, in UTC; a point of value 1.0 in
  namespace \<open>N\<close> with metric name \<open>M\<close> at that datetime; a backend that stores the points
  at 0, 30, 70 and 130 seconds; and a backend that stores 1200 points.
\<close>

definition at_seconds :: "int \<Rightarrow> datetime" where
  "at_seconds t = \<lparr>dt_wall = seconds t, dt_utcoffset = Some 0\<rparr>"

definition example_point :: "int \<Rightarrow> MetricDatum" where
  "example_point t =
     \<lparr>md_namespace = ''N'', md_name = ''M'', md_value = 1, md_timestamp = at_seconds t,
      md_dimensions = []\<rparr>"

definition example_metrics :: CloudWatchBackend where
  "example_metrics =
     CloudWatchBackend_init\<lparr>metric_data := map example_point [0, 30, 70, 130]\<rparr>"

definition example_listing :: CloudWatchBackend where
  "example_listing =
     CloudWatchBackend_init\<lparr>metric_data := map example_point (map int [0..<1200])\<rparr>"

text \<open>
  Three calls of \<open>list_metrics\<close> in a row on the backend with 1200 points, each with
  the token the call before returned.
\<close>

definition example_page1 ::
  "(error + string option \<times> MetricDatum list) \<times> CloudWatchBackend" where
  "example_page1 = list_metrics ''uuid-1'' [] example_listing None None None None"

definition example_page2 ::
  "(error + string option \<times> MetricDatum list) \<times> CloudWatchBackend" where
  "example_page2 = list_metrics ''uuid-2'' [] (snd example_page1) (Some ''uuid-1'') None None None"

definition example_page3 ::
  "(error + string option \<times> MetricDatum list) \<times> CloudWatchBackend" where
  "example_page3 = list_metrics ''uuid-3'' [] (snd example_page2) (Some ''uuid-2'') None None None"

section \<open>Theorems\<close>

lemma Dimension_eq_iff: "Dimension_eq a b \<longleftrightarrow> a = b"
  by (cases a, cases b) (auto simp: Dimension_eq_def)

text \<open>
  C10.  The claim is that \<open>a != b\<close> on two dimensions terminates and returns the negation
  of \<open>a == b\<close>.  The code does not: whatever the stack depth and whatever the two
  dimensions, \<open>Dimension.__ne__\<close> calls itself until the stack is used up and raises
  \<open>RecursionError\<close>; it never returns a boolean.
\<close>

theorem Dimension_ne_never_returns:
  "Dimension_ne depth a b = Inl RecursionError"
  by (induction depth) simp_all

subsection \<open>The alarm registry\<close>

lemma filter_values_update:
  assumes "distinct (map fst al)" and "list_all (\<lambda>(k, a). nm a = k) al" and "nm A = n"
  shows "filter (\<lambda>a. nm a = n) (map snd (AList.update n A al)) = [A]"
  using assms
proof (induction al)
  case Nil
  then show ?case by simp
next
  case (Cons p al)
  obtain k a where p: "p = (k, a)" by (cases p)
  show ?case
  proof (cases "k = n")
    case True
    have "nm (snd x) \<noteq> n" if "x \<in> set al" for x
    proof -
      obtain k' a' where x: "x = (k', a')" by (cases x)
      have "nm a' = k'" using Cons.prems(2) that x by (auto simp: list_all_iff)
      moreover have "k' \<noteq> n" using Cons.prems(1) that x True p by force
      ultimately show ?thesis using x by simp
    qed
    then have "filter (\<lambda>a. nm a = n) (map snd al) = []"
      by (auto simp: filter_empty_conv)
    with True p Cons.prems(3) show ?thesis by simp
  next
    case False
    with Cons p show ?thesis by simp
  qed
qed

lemma alarm_dimensions_of_total:
  assumes "\<forall>d \<in> set dimensions. d ''name'' \<noteq> None \<and> d ''value'' \<noteq> None"
  shows "alarm_dimensions_of dimensions =
           Inr (map (\<lambda>d. \<lparr>dim_name = the (d ''name''), dim_value = the (d ''value'')\<rparr>)
                  dimensions)"
  using assms by (induction dimensions) (auto simp: getitem_def)

lemma list_all_update:
  "list_all (\<lambda>(k, a). nm a = k) al \<Longrightarrow> nm A = n \<Longrightarrow>
   list_all (\<lambda>(k, a). nm a = k) (AList.update n A al)"
  by (induction al) auto

lemma list_all_delete: "list_all P al \<Longrightarrow> list_all P (AList.delete k al)"
  by (induction al) auto

lemma distinct_fold_delete:
  "distinct (map fst al) \<Longrightarrow> distinct (map fst (fold AList.delete ks al))"
  by (induction ks arbitrary: al) (auto simp: distinct_delete)

lemma list_all_fold_delete: "list_all P al \<Longrightarrow> list_all P (fold AList.delete ks al)"
  by (induction ks arbitrary: al) (auto simp: list_all_delete)

lemma alarm_name_update_state [simp]:
  "alarm_name (update_state now alarm reason reason_data state_val) = alarm_name alarm"
  by (simp add: update_state_def)

lemma map_of_alarm_name:
  "list_all (\<lambda>(k, a). nm a = k) al \<Longrightarrow> map_of al n = Some a \<Longrightarrow> nm a = n"
  by (auto simp: list_all_iff dest!: map_of_SomeD)

text \<open>
  The invariant holds in every state the backend can reach: in the initial one, and after
  each method that changes the alarms.
\<close>

lemma alarms_wf_init: "alarms_wf CloudWatchBackend_init"
  by (simp add: alarms_wf_def CloudWatchBackend_init_def keys_def)

lemma alarms_wf_put_metric_alarm:
  "alarms_wf self \<Longrightarrow>
   alarms_wf (snd (put_metric_alarm t_conf t_state self name namespace metric_name
     comparison_op evaluation_pds period thresh stat descr dimensions alarm_acts ok_acts
     insufficient_data_acts unit acts_enabled))"
  by (auto simp: alarms_wf_def put_metric_alarm_def FakeAlarm_init_def keys_def distinct_update
      intro!: list_all_update split: sum.splits)

lemma alarms_wf_delete_alarms: "alarms_wf self \<Longrightarrow> alarms_wf (delete_alarms self alarm_names)"
  by (simp add: alarms_wf_def delete_alarms_def keys_def distinct_fold_delete
      list_all_fold_delete)

lemma alarms_wf_set_alarm_state:
  assumes "alarms_wf self"
  shows "alarms_wf (snd (set_alarm_state loads now self name reason reason_data state_val))"
proof (cases "map_of (alarms self) name")
  case None
  with assms show ?thesis
    by (simp add: set_alarm_state_def split: option.splits)
next
  case (Some alarm)
  have nm: "alarm_name alarm = name"
    using assms Some by (auto simp: alarms_wf_def intro: map_of_alarm_name)
  have "alarms_wf (self\<lparr>alarms :=
          AList.update name (update_state now alarm reason reason_data state_val)
            (alarms self)\<rparr>)"
    using assms nm by (simp add: alarms_wf_def keys_def distinct_update list_all_update)
  with assms Some show ?thesis
    by (auto simp: set_alarm_state_def split: option.splits)
qed

lemma example_alarms_keys: "keys (alarms example_alarms) = [''cpu-high'']"
  by (simp add: example_alarms_def put_metric_alarm_def FakeAlarm_init_def getitem_def
      CloudWatchBackend_init_def keys_def)

lemma json_loads_empty_object: "json_loads 900 ''{}'' = None"
  by code_simp

lemma json_loads_open_brace: "json_loads 900 ''{'' = Some ValueError"
  by code_simp

lemma json_value_nested:
  "2 * depth < n \<Longrightarrow>
   json_value n depth (replicate (Suc depth) (CHR ''['') @ t) = Inl RecursionError"
proof (induction depth arbitrary: n)
  case 0
  then obtain m where "n = Suc m" by (cases n) auto
  then show ?case by simp
next
  case (Suc depth)
  then obtain m where n: "n = Suc (Suc m)" and m: "2 * depth < m"
    by (cases n; cases "n - 1") auto
  have "json_value m depth (replicate (Suc depth) (CHR ''['') @ t) = Inl RecursionError"
    using Suc.IH [OF m] .
  then show ?case
    by (simp add: n skip_ws_def is_ws_def)
qed

lemma json_loads_nested:
  assumes "depth < n"
  shows "json_loads depth (replicate n (CHR ''['') @ t) = Some RecursionError"
proof -
  let ?s = "replicate n (CHR ''['') @ t"
  from assms obtain k where n: "n = Suc depth + k"
    by (metis add_Suc less_iff_Suc_add)
  have split: "?s = replicate (Suc depth) (CHR ''['') @ (replicate k (CHR ''['') @ t)"
    unfolding n replicate_add by simp
  have ws: "skip_ws ?s = ?s"
    using assms by (cases n) (simp_all add: skip_ws_def is_ws_def)
  have "2 * depth < 2 * length ?s + 2"
    using assms by simp
  then have "json_value (2 * length ?s + 2) depth
      (replicate (Suc depth) (CHR ''['') @ (replicate k (CHR ''['') @ t)) = Inl RecursionError"
    by (rule json_value_nested)
  then have "json_value (2 * length ?s + 2) depth (skip_ws ?s) = Inl RecursionError"
    unfolding ws using split by simp
  then show ?thesis
    unfolding json_loads_def by simp
qed

text \<open>
  C1 (as amended).  On a name that is not in the registry \<open>set_alarm_state\<close> always fails
  and leaves the backend as it was, whatever \<open>reason\<close> and the state value are.  It fails
  with \<open>ResourceNotFound\<close> when \<open>reason_data\<close> is \<open>None\<close> or a text on which
  \<open>json.loads\<close> returns.  The test of \<open>reason_data\<close> comes first: when \<open>json.loads\<close>
  raises \<open>ValueError\<close> the failure is \<open>InvalidFormat\<close>, and when it raises another
  exception (\<open>RecursionError\<close> on a text nested too deep) that exception is the failure.
\<close>

theorem set_alarm_state_unknown_name:
  assumes "name \<notin> set (keys (alarms self))"
  shows "set_alarm_state loads now self name reason reason_data state_val =
           (Inl (case (case reason_data of None \<Rightarrow> None | Some s \<Rightarrow> loads s) of
                   None \<Rightarrow> RESTError ''ResourceNotFound'' (''Alarm '' @ name @ '' not found'')
                 | Some e \<Rightarrow>
                     if e = ValueError
                     then RESTError ''InvalidFormat'' ''StateReasonData is invalid JSON''
                     else e),
            self)"
  using assms by (simp add: set_alarm_state_def split: option.splits)

theorem set_alarm_state_unknown_name_witness:
  "set_alarm_state (json_loads 900) 20 example_alarms ''disk-full'' ''manual'' (Some ''{}'')
     ''ALARM'' =
     (Inl (RESTError ''ResourceNotFound'' ''Alarm disk-full not found''), example_alarms) \<and>
   set_alarm_state (json_loads 900) 20 example_alarms ''disk-full'' ''manual'' None ''bogus'' =
     (Inl (RESTError ''ResourceNotFound'' ''Alarm disk-full not found''), example_alarms) \<and>
   set_alarm_state (json_loads 900) 20 example_alarms ''disk-full'' ''manual''
     (Some (replicate 1000 (CHR ''['') @ replicate 1000 (CHR '']''))) ''ALARM'' =
     (Inl RecursionError, example_alarms)"
proof -
  have k: "''disk-full'' \<notin> set (keys (alarms example_alarms))"
    by (simp add: example_alarms_keys)
  have deep: "json_loads 900 (replicate 1000 (CHR ''['') @ replicate 1000 (CHR '']'')) =
      Some RecursionError"
    by (rule json_loads_nested) simp
  show ?thesis
    using set_alarm_state_unknown_name
            [OF k, of "json_loads 900" 20 "''manual''" "Some ''{}''" "''ALARM''"]
      set_alarm_state_unknown_name [OF k, of "json_loads 900" 20 "''manual''" None "''bogus''"]
      set_alarm_state_unknown_name [OF k, of "json_loads 900" 20 "''manual''"
        "Some (replicate 1000 (CHR ''['') @ replicate 1000 (CHR '']''))" "''ALARM''"]
      json_loads_empty_object deep
    by simp
qed

text \<open>
  C1 as stated fails: the name \<open>disk-full\<close> is not in the registry, \<open>reason_data\<close> is the
  text \<open>{\<close>, which is not JSON, and the failure is \<open>InvalidFormat\<close>, not
  \<open>ResourceNotFound\<close>.
\<close>

theorem set_alarm_state_unknown_name_counterexample:
  "''disk-full'' \<notin> set (keys (alarms example_alarms)) \<and>
   set_alarm_state (json_loads 900) 20 example_alarms ''disk-full'' ''manual'' (Some ''{'')
     ''ALARM'' =
     (Inl (RESTError ''InvalidFormat'' ''StateReasonData is invalid JSON''), example_alarms) \<and>
   fst (set_alarm_state (json_loads 900) 20 example_alarms ''disk-full'' ''manual'' (Some ''{'')
          ''ALARM'') \<noteq>
     Inl (RESTError ''ResourceNotFound'' ''Alarm disk-full not found'')"
  using json_loads_open_brace by (simp add: set_alarm_state_def example_alarms_keys)

text \<open>
  C7.  In a registry that satisfies its invariant, and with dimensions that each have a
  name and a value, \<open>put_metric_alarm\<close> succeeds and \<open>get_alarms_by_alarm_names\<close> on
  the name then returns exactly one alarm, the one \<open>put_metric_alarm\<close> returned: it has
  the configuration given, the state \<open>OK\<close>, an empty reason, the reason data \<open>{}\<close> and
  an empty history, whatever alarm the registry held under that name before.
\<close>

theorem put_metric_alarm_then_get:
  assumes wf: "alarms_wf self"
    and dims: "\<forall>d \<in> set dimensions. d ''name'' \<noteq> None \<and> d ''value'' \<noteq> None"
  shows "\<exists>A. fst (put_metric_alarm t_conf t_state self name namespace metric_name
                  comparison_op evaluation_pds period thresh stat descr dimensions alarm_acts
                  ok_acts insufficient_data_acts unit acts_enabled) = Inr A \<and>
             get_alarms_by_alarm_names
               (snd (put_metric_alarm t_conf t_state self name namespace metric_name
                  comparison_op evaluation_pds period thresh stat descr dimensions alarm_acts
                  ok_acts insufficient_data_acts unit acts_enabled)) [name] = [A] \<and>
             alarm_name A = name \<and> alarm_namespace A = namespace \<and>
             alarm_metric_name A = metric_name \<and> comparison_operator A = comparison_op \<and>
             evaluation_periods A = evaluation_pds \<and> alarm_period A = period \<and>
             threshold A = thresh \<and> statistic A = stat \<and> description A = descr \<and>
             alarm_dimensions A =
               map (\<lambda>d. \<lparr>dim_name = the (d ''name''), dim_value = the (d ''value'')\<rparr>)
                 dimensions \<and>
             actions_enabled A = acts_enabled \<and> alarm_actions A = alarm_acts \<and>
             ok_actions A = ok_acts \<and> insufficient_data_actions A = insufficient_data_acts \<and>
             alarm_unit A = unit \<and>
             state_value A = ''OK'' \<and> state_reason A = [] \<and>
             state_reason_data A = Some ''{}'' \<and> history A = []"
proof -
  define A where "A =
    \<lparr>alarm_name = name, alarm_namespace = namespace, alarm_metric_name = metric_name,
     comparison_operator = comparison_op, evaluation_periods = evaluation_pds,
     alarm_period = period, threshold = thresh, statistic = stat, description = descr,
     alarm_dimensions =
       map (\<lambda>d. \<lparr>dim_name = the (d ''name''), dim_value = the (d ''value'')\<rparr>) dimensions,
     actions_enabled = acts_enabled, alarm_actions = alarm_acts, ok_actions = ok_acts,
     insufficient_data_actions = insufficient_data_acts, alarm_unit = unit,
     configuration_updated_timestamp = t_conf, history = [], state_reason = [],
     state_reason_data = Some ''{}'', state_value = ''OK'',
     state_updated_timestamp = t_state\<rparr>"
  have put: "put_metric_alarm t_conf t_state self name namespace metric_name comparison_op
            evaluation_pds period thresh stat descr dimensions alarm_acts ok_acts
            insufficient_data_acts unit acts_enabled =
          (Inr A, self\<lparr>alarms := AList.update name A (alarms self)\<rparr>)"
    by (simp add: put_metric_alarm_def FakeAlarm_init_def alarm_dimensions_of_total [OF dims]
        A_def)
  have nm: "alarm_name A = name"
    by (simp add: A_def)
  have "filter (\<lambda>a. alarm_name a = name) (map snd (AList.update name A (alarms self))) = [A]"
    using wf nm by (intro filter_values_update) (simp_all add: alarms_wf_def keys_def)
  then have get:
    "get_alarms_by_alarm_names (self\<lparr>alarms := AList.update name A (alarms self)\<rparr>) [name] = [A]"
    by (simp add: get_alarms_by_alarm_names_def dict_values_def)
  have fields: "alarm_namespace A = namespace \<and>
             alarm_metric_name A = metric_name \<and> comparison_operator A = comparison_op \<and>
             evaluation_periods A = evaluation_pds \<and> alarm_period A = period \<and>
             threshold A = thresh \<and> statistic A = stat \<and> description A = descr \<and>
             alarm_dimensions A =
               map (\<lambda>d. \<lparr>dim_name = the (d ''name''), dim_value = the (d ''value'')\<rparr>)
                 dimensions \<and>
             actions_enabled A = acts_enabled \<and> alarm_actions A = alarm_acts \<and>
             ok_actions A = ok_acts \<and> insufficient_data_actions A = insufficient_data_acts \<and>
             alarm_unit A = unit \<and>
             state_value A = ''OK'' \<and> state_reason A = [] \<and>
             state_reason_data A = Some ''{}'' \<and> history A = []"
    by (simp add: A_def)
  show ?thesis
    unfolding put fst_conv snd_conv using get nm fields by blast
qed

lemma example_alarmed_wf: "alarms_wf example_alarmed"
  unfolding example_alarmed_def example_alarms_def
  by (intro alarms_wf_set_alarm_state alarms_wf_put_metric_alarm alarms_wf_init)

lemma example_alarmed_state:
  "map state_value (get_alarms_by_alarm_names example_alarmed [''cpu-high'']) = [''ALARM''] \<and>
   map (\<lambda>a. length (history a)) (get_alarms_by_alarm_names example_alarmed [''cpu-high'']) = [1]"
  using json_loads_empty_object
  by (simp add: example_alarmed_def example_alarms_def set_alarm_state_def put_metric_alarm_def
      FakeAlarm_init_def getitem_def CloudWatchBackend_init_def keys_def update_state_def
      get_alarms_by_alarm_names_def dict_values_def)

theorem put_metric_alarm_then_get_witness:
  "alarms_wf example_alarmed \<and>
   map state_value (get_alarms_by_alarm_names example_alarmed [''cpu-high'']) = [''ALARM''] \<and>
   map state_value
     (get_alarms_by_alarm_names
        (snd (put_metric_alarm 30 31 example_alarmed ''cpu-high'' ''N'' ''M''
                ''LessThanThreshold'' 2 300 1 ''Sum'' ''d''
                [[''name'' \<mapsto> ''k'', ''value'' \<mapsto> ''v'']] [] [] [] ''Count'' False))
        [''cpu-high'']) = [''OK''] \<and>
   map history
     (get_alarms_by_alarm_names
        (snd (put_metric_alarm 30 31 example_alarmed ''cpu-high'' ''N'' ''M''
                ''LessThanThreshold'' 2 300 1 ''Sum'' ''d''
                [[''name'' \<mapsto> ''k'', ''value'' \<mapsto> ''v'']] [] [] [] ''Count'' False))
        [''cpu-high'']) = [[]] \<and>
   map alarm_namespace
     (get_alarms_by_alarm_names
        (snd (put_metric_alarm 30 31 example_alarmed ''cpu-high'' ''N'' ''M''
                ''LessThanThreshold'' 2 300 1 ''Sum'' ''d''
                [[''name'' \<mapsto> ''k'', ''value'' \<mapsto> ''v'']] [] [] [] ''Count'' False))
        [''cpu-high'']) = [''N'']"
proof -
  have dims: "\<forall>d \<in> set [[''name'' \<mapsto> ''k'', ''value'' \<mapsto> ''v'']].
                d ''name'' \<noteq> None \<and> d ''value'' \<noteq> None"
    by simp
  from put_metric_alarm_then_get [OF example_alarmed_wf dims, of 30 31 "''cpu-high''" "''N''"
      "''M''" "''LessThanThreshold''" 2 300 1 "''Sum''" "''d''" "[]" "[]" "[]" "''Count''" False]
  obtain A where
    "get_alarms_by_alarm_names
        (snd (put_metric_alarm 30 31 example_alarmed ''cpu-high'' ''N'' ''M''
                ''LessThanThreshold'' 2 300 1 ''Sum'' ''d''
                [[''name'' \<mapsto> ''k'', ''value'' \<mapsto> ''v'']] [] [] [] ''Count'' False))
        [''cpu-high''] = [A]"
    and "state_value A = ''OK''" and "history A = []" and "alarm_namespace A = ''N''"
    by blast
  with example_alarmed_wf example_alarmed_state show ?thesis
    by simp
qed

subsection \<open>Dashboards\<close>

lemma del_each_present:
  "distinct ks \<Longrightarrow> set ks \<subseteq> set (keys d) \<Longrightarrow>
   del_each ks d = (None, filter (\<lambda>(k, v). k \<notin> set ks) d)"
proof (induction ks arbitrary: d)
  case Nil
  then show ?case by simp
next
  case (Cons k ks)
  have del: "AList.delete k d = filter (\<lambda>(k', v). k' \<noteq> k) d"
    by (auto simp: AList.delete_eq intro: filter_cong)
  have "set ks \<subseteq> set (keys (AList.delete k d))"
    using Cons.prems by (auto simp: keys_def delete_keys)
  with Cons have "del_each ks (AList.delete k d) =
      (None, filter (\<lambda>(k, v). k \<notin> set ks) (AList.delete k d))"
    by simp
  moreover have "filter (\<lambda>(k, v). k \<notin> set ks) (AList.delete k d) =
      filter (\<lambda>(k', v). k' \<notin> set (k # ks)) d"
    by (auto simp: del intro: filter_cong)
  ultimately show ?case
    using Cons.prems by (simp add: dict_del_def)
qed

lemma sublist_join: "n \<in> set xs \<Longrightarrow> sublist n (join sep xs)"
proof (induction sep xs rule: join.induct)
  case (1 sep)
  then show ?case by simp
next
  case (2 sep x)
  then show ?case by simp
next
  case (3 sep x y ys)
  show ?case
  proof (cases "n = x")
    case True
    then show ?thesis by (simp add: sublist_append_rightI prefix_imp_sublist)
  next
    case False
    with 3 have "sublist n (join sep (y # ys))" by simp
    then obtain ps ss where "join sep (y # ys) = ps @ n @ ss"
      by (auto simp: sublist_def)
    then have "join sep (x # y # ys) = (x @ sep @ ps) @ n @ ss"
      by simp
    then show ?thesis
      unfolding sublist_def by blast
  qed
qed

lemma reorders_set: "reorders order \<Longrightarrow> set (order xs) = set xs"
  unfolding reorders_def by (metis set_mset_mset)

lemma reorders_distinct: "reorders order \<Longrightarrow> distinct (order xs) = distinct xs"
  unfolding reorders_def by (metis mset_eq_imp_distinct_iff)

text \<open>
  C5.  Whatever the order in which Python reads a set, \<open>delete_dashboards\<close> either
  succeeds and removes exactly the requested dashboards, when every requested name is a
  key of the registry, or, when some requested name is not, returns \<open>False\<close> with a
  message that lists the missing names, all of them and each once, and leaves the backend
  as it was.
\<close>

theorem delete_dashboards_all_or_nothing:
  assumes "reorders order"
  shows "(set names \<subseteq> set (keys (dashboards self)) \<longrightarrow>
            delete_dashboards order self names =
              (Inr (True, None),
               self\<lparr>dashboards := filter (\<lambda>(k, v). k \<notin> set names) (dashboards self)\<rparr>)) \<and>
         (\<not> set names \<subseteq> set (keys (dashboards self)) \<longrightarrow>
            (\<exists>left_over.
               delete_dashboards order self names =
                 (Inr (False,
                       Some (''The specified dashboard does not exist. ['' @
                             join '', '' left_over @ '']'')),
                  self) \<and>
               set left_over = set names - set (keys (dashboards self)) \<and>
               distinct left_over \<and>
               (\<forall>n \<in> set left_over.
                  sublist n (''The specified dashboard does not exist. ['' @
                             join '', '' left_over @ '']''))))"
proof (intro conjI impI)
  let ?to_delete = "order (remdups names)"
  let ?left_over = "order (filter (\<lambda>n. n \<notin> set (keys (dashboards self))) ?to_delete)"
  have set_td: "set ?to_delete = set names" and dist_td: "distinct ?to_delete"
    using assms by (simp_all add: reorders_set reorders_distinct)
  have set_lo: "set ?left_over = set names - set (keys (dashboards self))"
    using assms set_td by (auto simp: reorders_set)
  have dist_lo: "distinct ?left_over"
    using assms dist_td by (simp add: reorders_distinct)
  {
    assume sub: "set names \<subseteq> set (keys (dashboards self))"
    then have "?left_over = []"
      using set_lo by (metis Diff_eq_empty_iff set_empty)
    moreover have "del_each ?to_delete (dashboards self) =
        (None, filter (\<lambda>(k, v). k \<notin> set names) (dashboards self))"
      using del_each_present [OF dist_td, of "dashboards self"] sub set_td by simp
    ultimately show "delete_dashboards order self names =
              (Inr (True, None),
               self\<lparr>dashboards := filter (\<lambda>(k, v). k \<notin> set names) (dashboards self)\<rparr>)"
      by (simp add: delete_dashboards_def)
  }
  {
    assume nsub: "\<not> set names \<subseteq> set (keys (dashboards self))"
    then have "?left_over \<noteq> []"
      using set_lo by (metis Diff_eq_empty_iff set_empty)
    then have "delete_dashboards order self names =
                 (Inr (False,
                       Some (''The specified dashboard does not exist. ['' @
                             join '', '' ?left_over @ '']'')),
                  self)"
      by (simp add: delete_dashboards_def Let_def)
    moreover have "\<forall>n \<in> set ?left_over.
                  sublist n (''The specified dashboard does not exist. ['' @
                             join '', '' ?left_over @ '']'')"
      using sublist_join sublist_appendI sublist_order.order_trans by blast
    ultimately show "\<exists>left_over.
               delete_dashboards order self names =
                 (Inr (False,
                       Some (''The specified dashboard does not exist. ['' @
                             join '', '' left_over @ '']'')),
                  self) \<and>
               set left_over = set names - set (keys (dashboards self)) \<and>
               distinct left_over \<and>
               (\<forall>n \<in> set left_over.
                  sublist n (''The specified dashboard does not exist. ['' @
                             join '', '' left_over @ '']''))"
      using set_lo dist_lo by blast
  }
qed

lemma example_dashboards_keys: "keys (dashboards example_dashboards) = [''a'']"
  by (simp add: example_dashboards_def put_dashboard_def CloudWatchBackend_init_def keys_def)

lemma distinct_set_single: "distinct xs \<Longrightarrow> set xs = {a} \<Longrightarrow> xs = [a]"
  by (metis distinct.simps(2) empty_iff insert_iff list.exhaust list.set_intros(1) list.set_intros(2) set_empty)

theorem delete_dashboards_all_or_nothing_witness:
  "delete_dashboards rev example_dashboards [''a'', ''missing''] =
     (Inr (False, Some ''The specified dashboard does not exist. [missing]''),
      example_dashboards) \<and>
   keys (dashboards example_dashboards) = [''a''] \<and>
   delete_dashboards rev example_dashboards [''a''] =
     (Inr (True, None), example_dashboards\<lparr>dashboards := []\<rparr>)"
proof -
  have r: "reorders rev"
    by (simp add: reorders_def)
  note step = delete_dashboards_all_or_nothing [OF r]
  from step [of "[''a'', ''missing'']" example_dashboards]
  obtain left_over where
    res: "delete_dashboards rev example_dashboards [''a'', ''missing''] =
           (Inr (False,
                 Some (''The specified dashboard does not exist. ['' @
                       join '', '' left_over @ '']'')),
            example_dashboards)"
    and "set left_over = set [''a'', ''missing''] - set (keys (dashboards example_dashboards))"
    and d: "distinct left_over"
    by (auto simp: example_dashboards_keys)
  then have "set left_over = {''missing''}"
    by (auto simp: example_dashboards_keys)
  with d have "left_over = [''missing'']"
    by (rule distinct_set_single)
  with res have first: "delete_dashboards rev example_dashboards [''a'', ''missing''] =
     (Inr (False, Some ''The specified dashboard does not exist. [missing]''),
      example_dashboards)"
    by simp
  have "filter (\<lambda>(k, v). k \<notin> set [''a'']) (dashboards example_dashboards) = []"
    by (simp add: example_dashboards_def put_dashboard_def CloudWatchBackend_init_def)
  with step [of "[''a'']" example_dashboards]
  have second: "delete_dashboards rev example_dashboards [''a''] =
     (Inr (True, None), example_dashboards\<lparr>dashboards := []\<rparr>)"
    by (simp add: example_dashboards_keys)
  from first second example_dashboards_keys show ?thesis
    by simp
qed

subsection \<open>VPN gateways\<close>

lemma map_of_fold_delete_prefix:
  "map_of (fold (\<lambda>key d. if P key then AList.delete key d else d) ks d) k =
     (if P k \<and> k \<in> set ks then None else map_of d k)"
proof (induction ks arbitrary: d)
  case Nil
  then show ?case by simp
next
  case (Cons a ks)
  then show ?case
    by (auto simp: delete_conv)
qed

text \<open>
  C9.  A gateway holds an attached entry for a VPC \<open>vpc1\<close>, whose identifier has the form
  \<open>vpc-...\<close> of a VPC identifier, and is attached to another VPC \<open>vpc2\<close> that the VPC
  backend knows.  Then \<open>attach_vpn_gateway\<close> succeeds; afterwards the attachments of the
  gateway have no entry for \<open>vpc1\<close> and an entry for \<open>vpc2\<close> in state \<open>attached\<close>.  A
  \<open>detach_vpn_gateway\<close> of \<open>vpc2\<close> then succeeds, and afterwards the entry for \<open>vpc2\<close>
  is still a key of the attachments, in state \<open>detached\<close>.
\<close>

theorem attach_replaces_then_detach_keeps:
  assumes gw: "map_of (vpn_gateways self) gid = Some gw"
    and a1: "map_of (attachments gw) vpc1 = Some a1"
    and st: "att_state a1 = Some ''attached''"
    and pre: "prefix ''vpc-'' vpc1"
    and ne: "vpc1 \<noteq> vpc2"
    and vpc: "get_vpc vpc2 = None"
  shows "\<exists>self' gw' self'' gw''.
           attach_vpn_gateway get_vpc self gid vpc2 =
             (Inr \<lparr>att_vpc_id = vpc2, att_gateway_id = None, att_state = Some ''attached''\<rparr>,
              self') \<and>
           map_of (vpn_gateways self') gid = Some gw' \<and>
           vpc1 \<notin> set (keys (attachments gw')) \<and>
           map_of (attachments gw') vpc2 =
             Some \<lparr>att_vpc_id = vpc2, att_gateway_id = None, att_state = Some ''attached''\<rparr> \<and>
           detach_vpn_gateway self' gid vpc2 =
             (Inr \<lparr>att_vpc_id = vpc2, att_gateway_id = None, att_state = Some ''detached''\<rparr>,
              self'') \<and>
           map_of (vpn_gateways self'') gid = Some gw'' \<and>
           vpc2 \<in> set (keys (attachments gw'')) \<and>
           map_of (attachments gw'') vpc2 =
             Some \<lparr>att_vpc_id = vpc2, att_gateway_id = None, att_state = Some ''detached''\<rparr>"
proof -
  let ?att = "\<lparr>att_vpc_id = vpc2, att_gateway_id = None, att_state = Some ''attached''\<rparr>"
  let ?det = "\<lparr>att_vpc_id = vpc2, att_gateway_id = None, att_state = Some ''detached''\<rparr>"
  define kept where "kept =
    fold (\<lambda>key d. if prefix ''vpc-'' key then AList.delete key d else d)
      (keys (attachments gw)) (attachments gw)"
  define gw' where "gw' = gw\<lparr>attachments := AList.update vpc2 ?att kept\<rparr>"
  define self' where "self' = self\<lparr>vpn_gateways := AList.update gid gw' (vpn_gateways self)\<rparr>"
  define gw'' where "gw'' = gw'\<lparr>attachments := AList.update vpc2 ?det (attachments gw')\<rparr>"
  define self'' where
    "self'' = self'\<lparr>vpn_gateways := AList.update gid gw'' (vpn_gateways self')\<rparr>"
  have in_keys: "vpc1 \<in> set (keys (attachments gw))"
    using a1 by (auto simp: keys_def dest: map_of_SomeD intro: rev_image_eqI)
  have kept1: "map_of kept vpc1 = None"
    using pre in_keys by (simp add: kept_def map_of_fold_delete_prefix)
  have attach: "attach_vpn_gateway get_vpc self gid vpc2 = (Inr ?att, self')"
    using gw vpc
    by (simp add: attach_vpn_gateway_def get_vpn_gateway_def Let_def kept_def gw'_def self'_def)
  have gw1: "map_of (vpn_gateways self') gid = Some gw'"
    by (simp add: self'_def update_conv')
  have no1: "map_of (attachments gw') vpc1 = None"
    using kept1 ne by (simp add: gw'_def update_conv')
  then have no1': "vpc1 \<notin> set (keys (attachments gw'))"
    by (simp add: keys_def map_of_eq_None_iff)
  have has2: "map_of (attachments gw') vpc2 = Some ?att"
    by (simp add: gw'_def update_conv')
  have detach: "detach_vpn_gateway self' gid vpc2 = (Inr ?det, self'')"
    using gw1 has2
    by (simp add: detach_vpn_gateway_def get_vpn_gateway_def Let_def gw''_def self''_def)
  have gw2: "map_of (vpn_gateways self'') gid = Some gw''"
    by (simp add: self''_def update_conv')
  have has2': "map_of (attachments gw'') vpc2 = Some ?det"
    by (simp add: gw''_def update_conv')
  then have "vpc2 \<in> set (keys (attachments gw''))"
    by (auto simp: keys_def dest: map_of_SomeD intro: rev_image_eqI)
  with attach gw1 no1' has2 detach gw2 has2' show ?thesis
    by blast
qed

lemma example_gateways_eq:
  "example_gateways =
     \<lparr>vpn_gateways =
        [(''vgw-1'',
          \<lparr>gw_id = ''vgw-1'', gw_type = ''ipsec.1'', amazon_side_asn = None,
           availability_zone = None, gw_state = ''available'', gw_tags = [],
           attachments =
             [(''vpc-1'',
               \<lparr>att_vpc_id = ''vpc-1'', att_gateway_id = None,
                att_state = Some ''attached''\<rparr>)]\<rparr>)]\<rparr>"
  by (simp add: example_gateways_def attach_vpn_gateway_def create_vpn_gateway_def
      get_vpn_gateway_def keys_def Let_def)

theorem attach_replaces_then_detach_keeps_witness:
  "keys (attachments (the (map_of (vpn_gateways example_gateways) ''vgw-1''))) = [''vpc-1''] \<and>
   ''vpc-1'' \<notin> set (keys (attachments (the (map_of (vpn_gateways
       (snd (attach_vpn_gateway (\<lambda>vpc_id. None) example_gateways ''vgw-1'' ''vpc-2'')))
       ''vgw-1'')))) \<and>
   map_of (attachments (the (map_of (vpn_gateways
       (snd (attach_vpn_gateway (\<lambda>vpc_id. None) example_gateways ''vgw-1'' ''vpc-2'')))
       ''vgw-1''))) ''vpc-2'' =
     Some \<lparr>att_vpc_id = ''vpc-2'', att_gateway_id = None, att_state = Some ''attached''\<rparr> \<and>
   map_of (attachments (the (map_of (vpn_gateways
       (snd (detach_vpn_gateway
          (snd (attach_vpn_gateway (\<lambda>vpc_id. None) example_gateways ''vgw-1'' ''vpc-2''))
          ''vgw-1'' ''vpc-2''))) ''vgw-1''))) ''vpc-2'' =
     Some \<lparr>att_vpc_id = ''vpc-2'', att_gateway_id = None, att_state = Some ''detached''\<rparr>"
proof -
  let ?gw = "\<lparr>gw_id = ''vgw-1'', gw_type = ''ipsec.1'', amazon_side_asn = None,
           availability_zone = None, gw_state = ''available'', gw_tags = [],
           attachments =
             [(''vpc-1'',
               \<lparr>att_vpc_id = ''vpc-1'', att_gateway_id = None,
                att_state = Some ''attached''\<rparr>)]\<rparr>"
  let ?a1 = "\<lparr>att_vpc_id = ''vpc-1'', att_gateway_id = None, att_state = Some ''attached''\<rparr>"
  have gw: "map_of (vpn_gateways example_gateways) ''vgw-1'' = Some ?gw"
    by (simp add: example_gateways_eq)
  have a1: "map_of (attachments ?gw) ''vpc-1'' = Some ?a1"
    by simp
  have st: "att_state ?a1 = Some ''attached''"
    by simp
  have pre: "prefix ''vpc-'' ''vpc-1''"
    by simp
  have ne: "''vpc-1'' \<noteq> ''vpc-2''"
    by simp
  have vpc: "(\<lambda>vpc_id::string. None::error option) ''vpc-2'' = None"
    by simp
  from attach_replaces_then_detach_keeps [OF gw a1 st pre ne vpc]
  obtain self' gw' self'' gw'' where
    "attach_vpn_gateway (\<lambda>vpc_id. None) example_gateways ''vgw-1'' ''vpc-2'' =
       (Inr \<lparr>att_vpc_id = ''vpc-2'', att_gateway_id = None, att_state = Some ''attached''\<rparr>,
        self')"
    and "map_of (vpn_gateways self') ''vgw-1'' = Some gw'"
    and "''vpc-1'' \<notin> set (keys (attachments gw'))"
    and "map_of (attachments gw') ''vpc-2'' =
       Some \<lparr>att_vpc_id = ''vpc-2'', att_gateway_id = None, att_state = Some ''attached''\<rparr>"
    and "detach_vpn_gateway self' ''vgw-1'' ''vpc-2'' =
       (Inr \<lparr>att_vpc_id = ''vpc-2'', att_gateway_id = None, att_state = Some ''detached''\<rparr>,
        self'')"
    and "map_of (vpn_gateways self'') ''vgw-1'' = Some gw''"
    and "map_of (attachments gw'') ''vpc-2'' =
       Some \<lparr>att_vpc_id = ''vpc-2'', att_gateway_id = None, att_state = Some ''detached''\<rparr>"
    by blast
  moreover have "keys (attachments (the (map_of (vpn_gateways example_gateways) ''vgw-1''))) =
      [''vpc-1'']"
    by (simp add: example_gateways_eq keys_def)
  ultimately show ?thesis
    by simp
qed

subsection \<open>Statistics\<close>










lemma seconds_pos [simp]: "0 < seconds n \<longleftrightarrow> 0 < n"
  by (simp add: seconds_def zero_less_mult_iff)

lemma seconds_neg [simp]: "seconds n < 0 \<longleftrightarrow> n < 0"
  by (simp add: seconds_def mult_less_0_iff)

lemma seconds_zero [simp]: "seconds n = 0 \<longleftrightarrow> n = 0"
  by (simp add: seconds_def)











lemma windows_stats:
  "windows fmt stats p rest dts ending = Inr ws \<Longrightarrow> (dt, s) \<in> set ws \<Longrightarrow>
   st_stats s = stats \<and> st_timestamp s = fmt dt"
  by (induction dts arbitrary: rest ws)
    (auto split: sum.splits prod.splits option.splits if_splits)



lemma example_windows:
  "get_metric_statistics_windows fmt example_metrics ''N'' ''M'' (at_seconds 0) (at_seconds 200)
     60 [''SampleCount'', ''Sum''] =
   Inr [(at_seconds 0,
         \<lparr>st_timestamp = fmt (at_seconds 0), st_values = [1, 1],
          st_stats = [''SampleCount'', ''Sum'']\<rparr>),
        (at_seconds 60,
         \<lparr>st_timestamp = fmt (at_seconds 60), st_values = [1],
          st_stats = [''SampleCount'', ''Sum'']\<rparr>),
        (at_seconds 120,
         \<lparr>st_timestamp = fmt (at_seconds 120), st_values = [1],
          st_stats = [''SampleCount'', ''Sum'']\<rparr>)]"
  by (simp add: get_metric_statistics_windows_def timedelta_def filtered_data_def
      sorted_by_timestamp_def example_metrics_def example_point_def at_seconds_def
      CloudWatchBackend_init_def seconds_def dt_le_def dt_lt_def dt_add_def aware_def
      utc_def max_wall_def daterange_def daterange_up.simps ending_of_def)







text \<open>
  C3.  The four points of the example, the interval from 0 to 200 seconds, a period of 60
  seconds and the statistics \<open>SampleCount\<close> and \<open>Sum\<close>: the result is three windows,
  starting at 0, 60 and 120 seconds, with the sample counts 2, 1, 1 and the sums 2, 1, 1.
\<close>

theorem get_metric_statistics_example:
  "get_metric_statistics fmt example_metrics ''N'' ''M'' (at_seconds 0) (at_seconds 200) 60
     [''SampleCount'', ''Sum''] =
     Inr [\<lparr>st_timestamp = fmt (at_seconds 0), st_values = [1, 1],
           st_stats = [''SampleCount'', ''Sum'']\<rparr>,
          \<lparr>st_timestamp = fmt (at_seconds 60), st_values = [1],
           st_stats = [''SampleCount'', ''Sum'']\<rparr>,
          \<lparr>st_timestamp = fmt (at_seconds 120), st_values = [1],
           st_stats = [''SampleCount'', ''Sum'']\<rparr>] \<and>
   map fst (projr (get_metric_statistics_windows fmt example_metrics ''N'' ''M'' (at_seconds 0)
     (at_seconds 200) 60 [''SampleCount'', ''Sum''])) =
     [at_seconds 0, at_seconds 60, at_seconds 120] \<and>
   map Statistics_sample_count
     (projr (get_metric_statistics fmt example_metrics ''N'' ''M'' (at_seconds 0)
        (at_seconds 200) 60 [''SampleCount'', ''Sum''])) = [Some 2, Some 1, Some 1] \<and>
   map Statistics_sum
     (projr (get_metric_statistics fmt example_metrics ''N'' ''M'' (at_seconds 0)
        (at_seconds 200) 60 [''SampleCount'', ''Sum''])) = [Some 2, Some 1, Some 1]"
  by (simp add: get_metric_statistics_def example_windows Statistics_sample_count_def
      Statistics_sum_def)




lemma get_metric_statistics_stats:
  assumes "get_metric_statistics fmt self namespace metric_name start_time end_time period
             stats = Inr out"
    and "s \<in> set out"
  shows "st_stats s = stats"
proof -
  from assms(1) obtain ws where
    ws: "get_metric_statistics_windows fmt self namespace metric_name start_time end_time
           period stats = Inr ws" and out: "out = map snd ws"
    by (auto simp: get_metric_statistics_def split: sum.splits)
  from assms(2) out obtain dt where mem: "(dt, s) \<in> set ws"
    by auto
  then have ne: "ws \<noteq> []"
    by auto
  from ws ne obtain p fd dts ending where "windows fmt stats p fd dts ending = Inr ws"
    by (auto simp: get_metric_statistics_windows_def split: sum.splits if_splits prod.splits)
  from windows_stats [OF this mem] show ?thesis
    by simp
qed

text \<open>
  C6.  In every window that \<open>get_metric_statistics\<close> returns, each of the five
  statistics that is not in the list of requested statistics is \<open>None\<close>, and the unit
  is \<open>None\<close>.
\<close>

theorem unrequested_statistics_absent:
  assumes "get_metric_statistics fmt self namespace metric_name start_time end_time period
             stats = Inr out"
    and "s \<in> set out"
  shows "(''SampleCount'' \<notin> set stats \<longrightarrow> Statistics_sample_count s = None) \<and>
         (''Sum'' \<notin> set stats \<longrightarrow> Statistics_sum s = None) \<and>
         (''Minimum'' \<notin> set stats \<longrightarrow> Statistics_minimum s = Inr None) \<and>
         (''Maximum'' \<notin> set stats \<longrightarrow> Statistics_maximum s = Inr None) \<and>
         (''Average'' \<notin> set stats \<longrightarrow> Statistics_average s = Inr None) \<and>
         Statistics_unit s = None"
  using get_metric_statistics_stats [OF assms]
  by (simp add: Statistics_sample_count_def Statistics_sum_def Statistics_minimum_def
      Statistics_maximum_def Statistics_average_def Statistics_unit_def)

theorem unrequested_statistics_absent_witness:
  "get_metric_statistics (\<lambda>dt. []) example_metrics ''N'' ''M'' (at_seconds 0) (at_seconds 200) 60
     [''SampleCount'', ''Sum''] =
     Inr [\<lparr>st_timestamp = [], st_values = [1, 1], st_stats = [''SampleCount'', ''Sum'']\<rparr>,
          \<lparr>st_timestamp = [], st_values = [1], st_stats = [''SampleCount'', ''Sum'']\<rparr>,
          \<lparr>st_timestamp = [], st_values = [1], st_stats = [''SampleCount'', ''Sum'']\<rparr>] \<and>
   Statistics_minimum
     \<lparr>st_timestamp = [], st_values = [1, 1], st_stats = [''SampleCount'', ''Sum'']\<rparr> =
     Inr None \<and>
   Statistics_maximum
     \<lparr>st_timestamp = [], st_values = [1, 1], st_stats = [''SampleCount'', ''Sum'']\<rparr> =
     Inr None \<and>
   Statistics_average
     \<lparr>st_timestamp = [], st_values = [1, 1], st_stats = [''SampleCount'', ''Sum'']\<rparr> =
     Inr None \<and>
   Statistics_unit
     \<lparr>st_timestamp = [], st_values = [1, 1], st_stats = [''SampleCount'', ''Sum'']\<rparr> = None \<and>
   Statistics_sample_count
     \<lparr>st_timestamp = [], st_values = [1, 1], st_stats = [''SampleCount'', ''Sum'']\<rparr> =
     Some 2"
proof -
  let ?s = "\<lparr>st_timestamp = [], st_values = [1, 1::real],
             st_stats = [''SampleCount'', ''Sum'']\<rparr>"
  let ?out = "[?s,
          \<lparr>st_timestamp = [], st_values = [1], st_stats = [''SampleCount'', ''Sum'']\<rparr>,
          \<lparr>st_timestamp = [], st_values = [1], st_stats = [''SampleCount'', ''Sum'']\<rparr>]"
  have ev: "get_metric_statistics (\<lambda>dt. []) example_metrics ''N'' ''M'' (at_seconds 0)
      (at_seconds 200) 60 [''SampleCount'', ''Sum''] = Inr ?out"
    by (simp add: get_metric_statistics_def example_windows)
  have mem: "?s \<in> set ?out"
    by simp
  from unrequested_statistics_absent [OF ev mem] ev show ?thesis
    by (simp add: Statistics_sample_count_def)
qed




subsection \<open>Listing metrics\<close>

lemma filter_metrics_no_filters: "filter_metrics metrics None None None = Inr metrics"
  by (induction metrics) (simp_all add: MetricDatum_filter_def truthy_def)

lemma list_metrics_unknown_token:
  assumes "tok \<noteq> []" and "tok \<notin> set (keys (paged_metric_data self))"
  shows "list_metrics uuid aws self (Some tok) namespace metric_name dimensions =
           (Inl (RESTError ''PaginationException'' ''Request parameter NextToken is invalid''),
            self)"
proof -
  have "map_of (paged_metric_data self) tok = None"
    using assms(2) by (simp add: keys_def map_of_eq_None_iff)
  with assms(1) show ?thesis
    by (simp add: list_metrics_def truthy_def)
qed

lemma list_metrics_consumes_token:
  assumes "tok \<noteq> []"
    and "list_metrics uuid aws self (Some tok) namespace metric_name dimensions = (Inr r, self')"
    and "uuid \<noteq> tok"
  shows "tok \<notin> set (keys (paged_metric_data self'))"
proof -
  from assms(1,2) obtain metrics where
    m: "map_of (paged_metric_data self) tok = Some metrics"
    and g: "get_paginated uuid
              (self\<lparr>paged_metric_data := AList.delete tok (paged_metric_data self)\<rparr>) metrics =
            (r, self')"
    by (auto simp: list_metrics_def truthy_def split: option.splits prod.splits)
  have "map_of (paged_metric_data self') tok = None"
    using g assms(3)
    by (auto simp: get_paginated_def update_conv' delete_conv' split: if_splits)
  then show ?thesis
    by (simp add: keys_def map_of_eq_None_iff)
qed

text \<open>
  C2 (as amended).  A backend has no outstanding token and 1200 metrics to list; \<open>t1\<close>
  and \<open>t2\<close> are the texts \<open>str(uuid4())\<close> gives in the first two calls, and such a
  text is not empty.  The first call, with no token and no filter, returns the first 500
  metrics and \<open>t1\<close>; the second, with \<open>t1\<close>, the next 500 and \<open>t2\<close>; the third, with
  \<open>t2\<close>, the last 200 and no token; after that both \<open>t1\<close> and \<open>t2\<close> fail with
  \<open>PaginationException\<close>.  In general a token that is not empty and not a key of
  \<open>paged_metric_data\<close> fails with \<open>PaginationException\<close> and leaves the backend as it
  was, and a token that is not empty is no longer a key after the call that used it, when
  the token that call generated is a new one.
\<close>

theorem list_metrics_pagination:
  assumes none: "paged_metric_data self = []"
    and len: "length (get_all_metrics aws self) = 1200"
    and t1: "t1 \<noteq> []"
    and t2: "t2 \<noteq> []"
  shows "(\<exists>s1 s2 s3.
            list_metrics t1 aws self None None None None =
              (Inr (Some t1, take 500 (get_all_metrics aws self)), s1) \<and>
            list_metrics t2 aws2 s1 (Some t1) ns2 mn2 ds2 =
              (Inr (Some t2, take 500 (drop 500 (get_all_metrics aws self))), s2) \<and>
            list_metrics t3 aws3 s2 (Some t2) ns3 mn3 ds3 =
              (Inr (None, drop 1000 (get_all_metrics aws self)), s3) \<and>
            length (drop 1000 (get_all_metrics aws self)) = 200 \<and>
            list_metrics t4 aws4 s3 (Some t2) ns4 mn4 ds4 =
              (Inl (RESTError ''PaginationException''
                      ''Request parameter NextToken is invalid''), s3) \<and>
            list_metrics t4 aws4 s3 (Some t1) ns4 mn4 ds4 =
              (Inl (RESTError ''PaginationException''
                      ''Request parameter NextToken is invalid''), s3)) \<and>
         (\<forall>b tok uuid a ns mn ds.
            tok \<noteq> [] \<and> tok \<notin> set (keys (paged_metric_data b)) \<longrightarrow>
            list_metrics uuid a b (Some tok) ns mn ds =
              (Inl (RESTError ''PaginationException''
                      ''Request parameter NextToken is invalid''), b)) \<and>
         (\<forall>b tok uuid a ns mn ds r b' uuid' a' ns' mn' ds'.
            tok \<noteq> [] \<and> uuid \<noteq> tok \<and>
            list_metrics uuid a b (Some tok) ns mn ds = (Inr r, b') \<longrightarrow>
            list_metrics uuid' a' b' (Some tok) ns' mn' ds' =
              (Inl (RESTError ''PaginationException''
                      ''Request parameter NextToken is invalid''), b'))"
proof (intro conjI allI impI)
  let ?all = "get_all_metrics aws self"
  let ?err = "Inl (RESTError ''PaginationException'' ''Request parameter NextToken is invalid'')"
  define s1 where "s1 = self\<lparr>paged_metric_data := [(t1, drop 500 ?all)]\<rparr>"
  define s2 where "s2 = self\<lparr>paged_metric_data := [(t2, drop 500 (drop 500 ?all))]\<rparr>"
  define s3 where "s3 = self\<lparr>paged_metric_data := []\<rparr>"
  have c1: "list_metrics t1 aws self None None None None = (Inr (Some t1, take 500 ?all), s1)"
    using none len
    by (simp add: list_metrics_def truthy_def get_filtered_metrics_def filter_metrics_no_filters
        get_paginated_def s1_def)
  have c2: "list_metrics t2 aws2 s1 (Some t1) ns2 mn2 ds2 =
      (Inr (Some t2, take 500 (drop 500 ?all)), s2)"
    using t1 len by (simp add: list_metrics_def truthy_def get_paginated_def s1_def s2_def)
  have c3: "list_metrics t3 aws3 s2 (Some t2) ns3 mn3 ds3 = (Inr (None, drop 1000 ?all), s3)"
    using t2 len by (simp add: list_metrics_def truthy_def get_paginated_def s2_def s3_def)
  have c4: "list_metrics t4 aws4 s3 (Some t2) ns4 mn4 ds4 = (?err, s3)"
    using t2 by (intro list_metrics_unknown_token) (simp_all add: s3_def keys_def)
  have c5: "list_metrics t4 aws4 s3 (Some t1) ns4 mn4 ds4 = (?err, s3)"
    using t1 by (intro list_metrics_unknown_token) (simp_all add: s3_def keys_def)
  have "length (drop 1000 ?all) = 200"
    using len by simp
  with c1 c2 c3 c4 c5
  show "\<exists>s1 s2 s3.
            list_metrics t1 aws self None None None None = (Inr (Some t1, take 500 ?all), s1) \<and>
            list_metrics t2 aws2 s1 (Some t1) ns2 mn2 ds2 =
              (Inr (Some t2, take 500 (drop 500 ?all)), s2) \<and>
            list_metrics t3 aws3 s2 (Some t2) ns3 mn3 ds3 =
              (Inr (None, drop 1000 ?all), s3) \<and>
            length (drop 1000 ?all) = 200 \<and>
            list_metrics t4 aws4 s3 (Some t2) ns4 mn4 ds4 = (?err, s3) \<and>
            list_metrics t4 aws4 s3 (Some t1) ns4 mn4 ds4 = (?err, s3)"
    by blast
next
  fix b :: CloudWatchBackend and tok uuid a ns mn ds
  assume "tok \<noteq> [] \<and> tok \<notin> set (keys (paged_metric_data b))"
  then show "list_metrics uuid a b (Some tok) ns mn ds =
      (Inl (RESTError ''PaginationException'' ''Request parameter NextToken is invalid''), b)"
    by (simp add: list_metrics_unknown_token)
next
  fix b :: CloudWatchBackend and tok uuid a ns mn ds r b' uuid' a' ns' mn' ds'
  assume "tok \<noteq> [] \<and> uuid \<noteq> tok \<and> list_metrics uuid a b (Some tok) ns mn ds = (Inr r, b')"
  then have "tok \<noteq> []" and "tok \<notin> set (keys (paged_metric_data b'))"
    using list_metrics_consumes_token by blast+
  then show "list_metrics uuid' a' b' (Some tok) ns' mn' ds' =
      (Inl (RESTError ''PaginationException'' ''Request parameter NextToken is invalid''), b')"
    by (rule list_metrics_unknown_token)
qed

theorem list_metrics_pagination_witness:
  "paged_metric_data example_listing = [] \<and>
   length (get_all_metrics [] example_listing) = 1200 \<and>
   fst example_page1 = Inr (Some ''uuid-1'', map example_point (map int [0..<500])) \<and>
   fst example_page2 = Inr (Some ''uuid-2'', map example_point (map int [500..<1000])) \<and>
   fst example_page3 = Inr (None, map example_point (map int [1000..<1200])) \<and>
   list_metrics ''uuid-4'' [] (snd example_page3) (Some ''uuid-1'') None None None =
     (Inl (RESTError ''PaginationException'' ''Request parameter NextToken is invalid''),
      snd example_page3) \<and>
   list_metrics ''uuid-4'' [] (snd example_page3) (Some ''uuid-2'') None None None =
     (Inl (RESTError ''PaginationException'' ''Request parameter NextToken is invalid''),
      snd example_page3) \<and>
   list_metrics ''uuid-5'' [] example_listing (Some ''never-issued'') None None None =
     (Inl (RESTError ''PaginationException'' ''Request parameter NextToken is invalid''),
      example_listing) \<and>
   list_metrics ''uuid-5'' [] (snd example_page2) (Some ''uuid-1'') None None None =
     (Inl (RESTError ''PaginationException'' ''Request parameter NextToken is invalid''),
      snd example_page2)"
proof -
  have none: "paged_metric_data example_listing = []"
    by (simp add: example_listing_def CloudWatchBackend_init_def)
  have all: "get_all_metrics [] example_listing = map example_point (map int [0..<1200])"
    by (simp add: get_all_metrics_def example_listing_def CloudWatchBackend_init_def)
  have len: "length (get_all_metrics [] example_listing) = 1200"
    by (simp add: all)
  have t1: "''uuid-1'' \<noteq> []" and t2: "''uuid-2'' \<noteq> []"
    by simp_all
  from list_metrics_pagination [OF none len t1 t2, where ?t3.0 = "''uuid-3''"
      and ?t4.0 = "''uuid-4''" and ?aws2.0 = "[]" and ?aws3.0 = "[]" and ?aws4.0 = "[]"
      and ?ns2.0 = None and ?mn2.0 = None and ?ds2.0 = None
      and ?ns3.0 = None and ?mn3.0 = None and ?ds3.0 = None
      and ?ns4.0 = None and ?mn4.0 = None and ?ds4.0 = None, THEN conjunct1]
  obtain s1 s2 s3 where
    p1: "list_metrics ''uuid-1'' [] example_listing None None None None =
           (Inr (Some ''uuid-1'', take 500 (get_all_metrics [] example_listing)), s1)"
    and p2: "list_metrics ''uuid-2'' [] s1 (Some ''uuid-1'') None None None =
           (Inr (Some ''uuid-2'', take 500 (drop 500 (get_all_metrics [] example_listing))), s2)"
    and p3: "list_metrics ''uuid-3'' [] s2 (Some ''uuid-2'') None None None =
           (Inr (None, drop 1000 (get_all_metrics [] example_listing)), s3)"
    and p4: "list_metrics ''uuid-4'' [] s3 (Some ''uuid-2'') None None None =
           (Inl (RESTError ''PaginationException''
                   ''Request parameter NextToken is invalid''), s3)"
    and p5: "list_metrics ''uuid-4'' [] s3 (Some ''uuid-1'') None None None =
           (Inl (RESTError ''PaginationException''
                   ''Request parameter NextToken is invalid''), s3)"
    by blast
  have e1: "example_page1 =
      (Inr (Some ''uuid-1'', take 500 (get_all_metrics [] example_listing)), s1)"
    by (simp add: example_page1_def p1)
  have e2: "example_page2 =
      (Inr (Some ''uuid-2'', take 500 (drop 500 (get_all_metrics [] example_listing))), s2)"
    by (simp add: example_page2_def e1 p2)
  have e3: "example_page3 = (Inr (None, drop 1000 (get_all_metrics [] example_listing)), s3)"
    by (simp add: example_page3_def e2 p3)
  have tk: "take 500 (get_all_metrics [] example_listing) = map example_point (map int [0..<500])"
    "take 500 (drop 500 (get_all_metrics [] example_listing)) =
       map example_point (map int [500..<1000])"
    "drop 1000 (get_all_metrics [] example_listing) = map example_point (map int [1000..<1200])"
    unfolding all by (simp_all only: take_map drop_map take_upt drop_upt) simp_all
  note general = list_metrics_pagination [OF none len t1 t2, THEN conjunct2]
  have unknown: "list_metrics ''uuid-5'' [] example_listing (Some ''never-issued'') None None None =
     (Inl (RESTError ''PaginationException'' ''Request parameter NextToken is invalid''),
      example_listing)"
    using general [THEN conjunct1, rule_format, of "''never-issued''" example_listing
        "''uuid-5''" "[]" None None None]
    by (simp add: none keys_def)
  have used: "list_metrics ''uuid-5'' [] s2 (Some ''uuid-1'') None None None =
     (Inl (RESTError ''PaginationException'' ''Request parameter NextToken is invalid''), s2)"
    using general [THEN conjunct2, rule_format, of "''uuid-1''" "''uuid-2''" "[]" s1 None None
        None "(Some ''uuid-2'', take 500 (drop 500 (get_all_metrics [] example_listing)))" s2
        "''uuid-5''" "[]" None None None] p2
    by simp
  from none len p4 p5 unknown used show ?thesis
    unfolding e1 e2 e3 fst_conv snd_conv tk by blast
qed

text \<open>
  C2 as stated fails for the empty text: it is not a key of \<open>paged_metric_data\<close>, but
  \<open>if next_token:\<close> takes it for no token, and the call lists the metrics from the start
  instead of raising \<open>PaginationException\<close>.
\<close>

theorem list_metrics_pagination_counterexample:
  "[] \<notin> set (keys (paged_metric_data example_metrics)) \<and>
   list_metrics ''uuid-1'' [] example_metrics (Some []) None None None =
     (Inr (None, map example_point [0, 30, 70, 130]), example_metrics) \<and>
   fst (list_metrics ''uuid-1'' [] example_metrics (Some []) None None None) \<noteq>
     Inl (RESTError ''PaginationException'' ''Request parameter NextToken is invalid'')"
  by (simp add: list_metrics_def truthy_def get_filtered_metrics_def filter_metrics_no_filters
      get_paginated_def get_all_metrics_def example_metrics_def CloudWatchBackend_init_def
      keys_def)

end
